theory Spec2Isabelle
  imports Complex_Main
begin

section \<open>Text\<close>

text \<open>
  A JavaScript string is modelled as a \<^typ>\<open>string\<close>: one \<^typ>\<open>char\<close> is one code unit,
  restricted to the code units below 256. \<open>length\<close> is \<open>.length\<close>, \<open>take n\<close> is
  \<open>.substring(0, n)\<close>.
\<close>

definition starts_with :: "string \<Rightarrow> string \<Rightarrow> bool" where
  "starts_with p s = (take (length p) s = p)"

text \<open>\<open>s.endsWith(p)\<close>\<close>

definition endsWith :: "string \<Rightarrow> string \<Rightarrow> bool" where
  "endsWith p s = (length p \<le> length s \<and> drop (length s - length p) s = p)"

text \<open>\<open>file.replace(/\.mdx$/, "")\<close>: a trailing \<open>.mdx\<close> is removed, nothing else.\<close>

definition strip_mdx :: "string \<Rightarrow> string" where
  "strip_mdx file = (if endsWith ''.mdx'' file then take (length file - 4) file else file)"

text \<open>\<open>s.replace(/-/g, " ")\<close>\<close>

definition hyphens_to_spaces :: "string \<Rightarrow> string" where
  "hyphens_to_spaces s = map (\<lambda>c. if c = CHR ''-'' then CHR '' '' else c) s"

text \<open>\<open>xs.join(sep)\<close> on a list of strings.\<close>

fun join :: "string \<Rightarrow> string list \<Rightarrow> string" where
  "join sep [] = []"
| "join sep [x] = x"
| "join sep (x # y # ys) = x @ sep @ join sep (y # ys)"

text \<open>
  The white space of \<open>String.prototype.trim\<close> and of the regular expression class \<open>\s\<close>
  (the same set in JavaScript), among the code units below 256: tab, line feed, vertical
  tab, form feed, carriage return, space and no-break space.
\<close>

definition is_space :: "char \<Rightarrow> bool" where
  "is_space c = (c = CHR 0x09 \<or> c = CHR 0x0A \<or> c = CHR 0x0B \<or> c = CHR 0x0C
                 \<or> c = CHR 0x0D \<or> c = CHR 0x20 \<or> c = CHR 0xA0)"

definition trim :: "string \<Rightarrow> string" where
  "trim s = rev (dropWhile is_space (rev (dropWhile is_space s)))"

text \<open>
  \<open>split_at_first pat s\<close>: the text before and the text after the leftmost occurrence of
  \<open>pat\<close> in \<open>s\<close>, if there is one.
\<close>

fun split_at_first :: "string \<Rightarrow> string \<Rightarrow> (string \<times> string) option" where
  "split_at_first pat [] = (if pat = [] then Some ([], []) else None)"
| "split_at_first pat (c # s) =
     (if starts_with pat (c # s) then Some ([], drop (length pat) (c # s))
      else (case split_at_first pat s of
              None \<Rightarrow> None
            | Some (a, b) \<Rightarrow> Some (c # a, b)))"

text \<open>
  \<open>content.match(/^---\n([\s\S]*?)\n---\n([\s\S]*)/)\<close>: the text has to begin with the
  marker line; the first group is lazy, so it ends at the leftmost later \<open>\n---\n\<close>;
  the second group is everything after it. The result is the pair of the two groups.
\<close>

definition frontmatter_match :: "string \<Rightarrow> (string \<times> string) option" where
  \<open>frontmatter_match content =
     (if starts_with ''---\<newline>'' content
      then split_at_first ''\<newline>---\<newline>'' (drop 4 content)
      else None)\<close>

section \<open>The things a loader reads\<close>

text \<open>
  A thrown JavaScript value: an \<open>Error\<close> instance with its message, or any other value.
\<close>

datatype thrown = Error string | NonError

text \<open>
  A JSON file that exists: \<open>readFileSync\<close> throws, or it returns the text and
  \<open>JSON.parse\<close> throws on it, or \<open>JSON.parse\<close> returns a value.
\<close>

datatype 'a json_file = Unreadable thrown | Malformed string thrown | Parsed string 'a

text \<open>
  The records of \<open>collections.json\<close>, with the fields the loaders read. A field that the
  code tests before use is optional. \<open>projects_items\<close> is \<open>data.projects?.items\<close>,
  \<open>None\<close> when \<open>projects\<close> or \<open>items\<close> is missing.
\<close>

record project_item =
  p_name :: string
  p_dates :: string
  p_description :: string
  p_technologies :: "string list option"

record publication_item =
  pub_name :: string
  pub_authors :: "string option"
  pub_dates :: string
  pub_description :: string

record collections =
  projects_items :: "project_item list option"
  publications_items :: "publication_item list option"

text \<open>
  The module \<open>@/data/site\<close> is not part of the sources at hand; \<open>siteConfig\<close> is taken as
  an input with the two fields that are read.
\<close>

record site_config =
  site_url :: string
  site_lastUpdated :: string

text \<open>
  A directory entry of \<open>content/blog/en\<close>: its name and what \<open>readFileSync\<close> does on it.
\<close>

type_synonym dir_entry = "string \<times> (thrown + string)"

text \<open>
  What the loaders see of the outside. \<open>None\<close> is a path for which \<open>existsSync\<close> is
  false. For the blog directory, \<open>Some (Inl e)\<close> is a path that exists on which
  \<open>readdirSync\<close> throws. In \<open>personal_file\<close> the parsed value is kept as its rendering
  \<open>JSON.stringify(value, null, 2)\<close>. \<open>site_module\<close> is the outcome of the dynamic import.
\<close>

record world =
  blog_dir :: "(thrown + dir_entry list) option"
  collections_file :: "collections json_file option"
  personal_file :: "string json_file option"
  site_module :: "thrown + site_config"

section \<open>Research data collection\<close>

datatype source = Project | Publication | Blog | General

record metadata =
  md_url :: "string option"
  md_date :: "string option"
  md_tags :: "string list option"

record ResearchDocument =
  doc_id :: string
  doc_title :: string
  doc_content :: string
  doc_source :: source
  doc_metadata :: metadata

subsection \<open>loadBlogPosts\<close>

definition blog_document :: "string \<Rightarrow> string \<Rightarrow> ResearchDocument" where
  \<open>blog_document file content =
     (let m = frontmatter_match content;
          frontmatter = (case m of None \<Rightarrow> [] | Some (fm, b) \<Rightarrow> fm);
          body = (case m of None \<Rightarrow> content | Some (fm, b) \<Rightarrow> b);
          title = hyphens_to_spaces (strip_mdx file)
      in \<lparr> doc_id = ''blog_'' @ file,
           doc_title = title,
           doc_content = frontmatter @ ''\<newline>\<newline>'' @ body,
           doc_source = Blog,
           doc_metadata = \<lparr> md_url = None, md_date = None,
                            md_tags = Some [''blog'', strip_mdx file] \<rparr> \<rparr>)\<close>

text \<open>
  The loop over the directory listing. There is no handler around \<open>readFileSync\<close>: a
  file that cannot be read ends the loop with the thrown value.
\<close>

fun loadBlogPosts_loop ::
  "dir_entry list \<Rightarrow> ResearchDocument list \<Rightarrow> thrown + ResearchDocument list" where
  "loadBlogPosts_loop [] documents = Inr documents"
| "loadBlogPosts_loop ((file, r) # files) documents =
     (if \<not> endsWith ''.mdx'' file then loadBlogPosts_loop files documents
      else (case r of
              Inl e \<Rightarrow> Inl e
            | Inr content \<Rightarrow>
                loadBlogPosts_loop files (documents @ [blog_document file content])))"

definition loadBlogPosts :: "world \<Rightarrow> thrown + ResearchDocument list" where
  "loadBlogPosts w =
     (case blog_dir w of
        None \<Rightarrow> Inr []
      | Some (Inl e) \<Rightarrow> Inl e
      | Some (Inr files) \<Rightarrow> loadBlogPosts_loop files [])"

subsection \<open>loadProjectsData\<close>

text \<open>\<open>project.technologies?.join(", ") || "N/A"\<close>: an empty join is falsy.\<close>

definition technologies_text :: "string list option \<Rightarrow> string" where
  "technologies_text t =
     (case t of
        None \<Rightarrow> ''N/A''
      | Some ts \<Rightarrow> (if join '', '' ts = [] then ''N/A'' else join '', '' ts))"

definition project_document :: "project_item \<Rightarrow> ResearchDocument" where
  \<open>project_document project =
     \<lparr> doc_id = ''project_'' @ p_name project,
       doc_title = p_name project,
       doc_content = ''Title: '' @ p_name project @ ''\<newline>Dates: '' @ p_dates project
          @ ''\<newline>Description: '' @ p_description project
          @ ''\<newline>Technologies: '' @ technologies_text (p_technologies project),
       doc_source = Project,
       doc_metadata = \<lparr> md_url = None, md_date = None,
                        md_tags = Some (''project'' #
                          (case p_technologies project of None \<Rightarrow> [] | Some ts \<Rightarrow> ts)) \<rparr> \<rparr>\<close>

text \<open>\<open>pub.authors || "N/A"\<close>: an empty string is falsy.\<close>

definition authors_text :: "string option \<Rightarrow> string" where
  "authors_text a = (case a of None \<Rightarrow> ''N/A'' | Some s \<Rightarrow> (if s = [] then ''N/A'' else s))"

definition publication_document :: "publication_item \<Rightarrow> ResearchDocument" where
  \<open>publication_document pub =
     \<lparr> doc_id = ''publication_'' @ pub_name pub,
       doc_title = pub_name pub,
       doc_content = ''Title: '' @ pub_name pub @ ''\<newline>Authors: '' @ authors_text (pub_authors pub)
          @ ''\<newline>Dates: '' @ pub_dates pub
          @ ''\<newline>Description: '' @ pub_description pub,
       doc_source = Publication,
       doc_metadata = \<lparr> md_url = None, md_date = None,
                        md_tags = Some [''publication'', ''research''] \<rparr> \<rparr>\<close>

text \<open>
  The body of the \<open>try\<close>: the documents pushed so far, and the value thrown if the body
  was left by a throw. Reading and parsing come before the first push.
\<close>

definition loadProjectsData_try :: "world \<Rightarrow> ResearchDocument list \<times> thrown option" where
  "loadProjectsData_try w =
     (case collections_file w of
        None \<Rightarrow> ([], None)
      | Some (Unreadable e) \<Rightarrow> ([], Some e)
      | Some (Malformed text e) \<Rightarrow> ([], Some e)
      | Some (Parsed text data) \<Rightarrow>
          ((case projects_items data of None \<Rightarrow> [] | Some items \<Rightarrow> map project_document items)
           @ (case publications_items data of
                None \<Rightarrow> []
              | Some items \<Rightarrow> map publication_document items),
           None))"

text \<open>The \<open>catch\<close> logs the thrown value; the documents pushed so far are returned.\<close>

definition loadProjectsData :: "world \<Rightarrow> ResearchDocument list" where
  "loadProjectsData w = fst (loadProjectsData_try w)"

subsection \<open>loadSiteInfo\<close>

text \<open>
  \<open>readFileSync\<close> is called without \<open>existsSync\<close>: a missing file throws as an unreadable
  one does. The text is used as it is, parsed or not.
\<close>

definition read_personal_text :: "world \<Rightarrow> thrown + string" where
  "read_personal_text w =
     (case personal_file w of
        None \<Rightarrow> Inl (Error ''ENOENT: no such file or directory'')
      | Some (Unreadable e) \<Rightarrow> Inl e
      | Some (Malformed text e) \<Rightarrow> Inr text
      | Some (Parsed text v) \<Rightarrow> Inr text)"

definition loadSiteInfo_try :: "world \<Rightarrow> ResearchDocument list \<times> thrown option" where
  \<open>loadSiteInfo_try w =
     (case site_module w of
        Inl e \<Rightarrow> ([], Some e)
      | Inr siteData \<Rightarrow>
          (case read_personal_text w of
             Inl e \<Rightarrow> ([], Some e)
           | Inr personalData \<Rightarrow>
               ([\<lparr> doc_id = ''site_info'',
                   doc_title = ''Site Information'',
                   doc_content = ''Website: '' @ site_url siteData @ ''\<newline>Last Updated: ''
                      @ site_lastUpdated siteData @ ''\<newline>\<newline>'' @ personalData,
                   doc_source = General,
                   doc_metadata = \<lparr> md_url = None, md_date = None,
                                    md_tags = Some [''general'', ''about''] \<rparr> \<rparr>],
                None)))\<close>

definition loadSiteInfo :: "world \<Rightarrow> ResearchDocument list" where
  "loadSiteInfo w = fst (loadSiteInfo_try w)"

subsection \<open>aggregateResearchDocuments\<close>

text \<open>
  \<open>Promise.all\<close> over the three loaders: it rejects when one of them rejects, and only
  \<open>loadBlogPosts\<close> can.
\<close>

definition aggregateResearchDocuments :: "world \<Rightarrow> thrown + ResearchDocument list" where
  "aggregateResearchDocuments w =
     (case loadBlogPosts w of
        Inl e \<Rightarrow> Inl e
      | Inr blogs \<Rightarrow> Inr (blogs @ loadProjectsData w @ loadSiteInfo w))"

section \<open>The research assistant endpoint\<close>

subsection \<open>loadResearchContent\<close>

definition is_quote :: "char \<Rightarrow> bool" where
  "is_quote c = (c = CHR 0x22 \<or> c = CHR 0x27)"

text \<open>
  The pattern \<open>/title:\s*["']([^"']+)["']/\<close> matched at the very beginning of a text:
  the word, any white space, a quote of either kind, the longest non-empty run without a
  quote (the group), and a quote of either kind.
\<close>

definition title_at :: "string \<Rightarrow> string option" where
  "title_at s =
     (if starts_with ''title:'' s
      then (case dropWhile is_space (drop 6 s) of
              [] \<Rightarrow> None
            | q # r \<Rightarrow>
                (if is_quote q
                 then (let t = takeWhile (\<lambda>c. \<not> is_quote c) r;
                           rest = dropWhile (\<lambda>c. \<not> is_quote c) r
                       in if t \<noteq> [] \<and> rest \<noteq> [] then Some t else None)
                 else None))
      else None)"

text \<open>\<open>blogContent.match(...)\<close>: the leftmost position of the whole text where the pattern matches.\<close>

fun title_match :: "string \<Rightarrow> string option" where
  "title_match [] = title_at []"
| "title_match (c # s) =
     (case title_at (c # s) of Some t \<Rightarrow> Some t | None \<Rightarrow> title_match s)"

definition divider :: string where
  "divider = replicate 50 (CHR ''='')"

text \<open>\<open>titleMatch ? titleMatch[1] : file.replace(/\.mdx$/, "")\<close>\<close>

definition blog_title :: "string \<Rightarrow> string \<Rightarrow> string" where
  "blog_title file blogContent =
     (case title_match blogContent of Some t \<Rightarrow> t | None \<Rightarrow> strip_mdx file)"

text \<open>\<open>bodyMatch ? bodyMatch[1] : blogContent\<close>\<close>

definition blog_body :: "string \<Rightarrow> string" where
  "blog_body blogContent =
     (case frontmatter_match blogContent of Some (fm, b) \<Rightarrow> b | None \<Rightarrow> blogContent)"

text \<open>
  What one file appends to \<open>content\<close>. The comment in the source speaks of the first 500
  characters; the code takes 800.
\<close>

definition blog_entry :: "string \<Rightarrow> string \<Rightarrow> string" where
  \<open>blog_entry file blogContent =
     ''\<newline>[BLOG] '' @ blog_title file blogContent @ ''\<newline>''
     @ take 800 (blog_body blogContent) @ ''\<newline>...\<newline>''\<close>

text \<open>
  The loop over the files, each in its own \<open>try\<close>: a file whose read throws is logged
  and the loop goes on with \<open>content\<close> as it was.
\<close>

fun blog_loop :: "dir_entry list \<Rightarrow> string \<Rightarrow> string" where
  "blog_loop [] content = content"
| "blog_loop ((file, r) # files) content =
     (case r of
        Inl e \<Rightarrow> blog_loop files content
      | Inr blogContent \<Rightarrow> blog_loop files (content @ blog_entry file blogContent))"

definition mdx_files :: "dir_entry list \<Rightarrow> dir_entry list" where
  "mdx_files entries = filter (\<lambda>(f, r). endsWith ''.mdx'' f) entries"

text \<open>
  Each of the three blocks of the outer \<open>try\<close> takes \<open>content\<close> and gives it back
  extended (\<open>Inr\<close>), or throws (\<open>Inl\<close>, with \<open>content\<close> as it was at the throw).
\<close>

definition blog_block :: "world \<Rightarrow> string \<Rightarrow> (string \<times> thrown) + string" where
  \<open>blog_block w content =
     (case blog_dir w of
        None \<Rightarrow> Inr content
      | Some (Inl e) \<Rightarrow> Inl (content, e)
      | Some (Inr entries) \<Rightarrow>
          Inr (blog_loop (take 10 (mdx_files entries))
                 (content @ ''BLOG POSTS:\<newline>'' @ divider @ ''\<newline>'')))\<close>

definition project_entry :: "project_item \<Rightarrow> string" where
  \<open>project_entry proj =
     ''\<newline>[PROJECT] '' @ p_name proj @ '' ('' @ p_dates proj @ '')\<newline>''
     @ ''Description: '' @ p_description proj @ ''\<newline>''
     @ (case p_technologies proj of
          None \<Rightarrow> []
        | Some ts \<Rightarrow> ''Technologies: '' @ join '', '' ts @ ''\<newline>'')\<close>

definition publication_entry :: "publication_item \<Rightarrow> string" where
  \<open>publication_entry pub =
     ''\<newline>[PUBLICATION] '' @ pub_name pub @ ''\<newline>''
     @ ''Authors: '' @ authors_text (pub_authors pub) @ ''\<newline>''
     @ ''Date: '' @ pub_dates pub @ ''\<newline>''
     @ ''Description: '' @ pub_description pub @ ''\<newline>''\<close>

definition projects_section :: "collections \<Rightarrow> string \<Rightarrow> string" where
  \<open>projects_section collectionsData content =
     (case projects_items collectionsData of
        None \<Rightarrow> content
      | Some items \<Rightarrow>
          content @ ''\<newline>\<newline>PROJECTS:\<newline>'' @ divider @ ''\<newline>''
          @ concat (map project_entry (take 10 items)))\<close>

definition publications_section :: "collections \<Rightarrow> string \<Rightarrow> string" where
  \<open>publications_section collectionsData content =
     (case publications_items collectionsData of
        None \<Rightarrow> content
      | Some items \<Rightarrow>
          content @ ''\<newline>\<newline>PUBLICATIONS:\<newline>'' @ divider @ ''\<newline>''
          @ concat (map publication_entry (take 10 items)))\<close>

definition collections_block :: "world \<Rightarrow> string \<Rightarrow> (string \<times> thrown) + string" where
  "collections_block w content =
     (case collections_file w of
        None \<Rightarrow> Inr content
      | Some (Unreadable e) \<Rightarrow> Inl (content, e)
      | Some (Malformed text e) \<Rightarrow> Inl (content, e)
      | Some (Parsed text collectionsData) \<Rightarrow>
          Inr (publications_section collectionsData
                 (projects_section collectionsData content)))"

definition personal_block :: "world \<Rightarrow> string \<Rightarrow> (string \<times> thrown) + string" where
  \<open>personal_block w content =
     (case personal_file w of
        None \<Rightarrow> Inr content
      | Some (Unreadable e) \<Rightarrow> Inl (content, e)
      | Some (Malformed text e) \<Rightarrow> Inl (content, e)
      | Some (Parsed text rendering) \<Rightarrow>
          Inr (content @ ''\<newline>\<newline>PERSONAL INFORMATION:\<newline>'' @ divider @ ''\<newline>''
               @ take 1000 rendering))\<close>

text \<open>
  The outer \<open>try\<close>: \<open>content\<close> when the body is left, and the thrown value if it was
  left by a throw.
\<close>

definition loadResearchContent_try :: "world \<Rightarrow> string \<times> thrown option" where
  "loadResearchContent_try w =
     (case blog_block w [] of
        Inl (c, e) \<Rightarrow> (c, Some e)
      | Inr c1 \<Rightarrow>
          (case collections_block w c1 of
             Inl (c, e) \<Rightarrow> (c, Some e)
           | Inr c2 \<Rightarrow>
               (case personal_block w c2 of
                  Inl (c, e) \<Rightarrow> (c, Some e)
                | Inr c3 \<Rightarrow> (c3, None))))"

text \<open>\<open>return content || "No research content available"\<close>\<close>

definition loadResearchContent :: "world \<Rightarrow> string" where
  "loadResearchContent w =
     (let content = fst (loadResearchContent_try w)
      in if content = [] then ''No research content available'' else content)"

subsection \<open>POST\<close>

datatype role = System | User | Assistant

record ChatMessage =
  cm_role :: role
  cm_content :: string

text \<open>
  The parsed request body, typed as the interface \<open>ChatRequest\<close>; \<open>question\<close> is
  optional because the handler tests it before use.
\<close>

record ChatRequest =
  req_messages :: "ChatMessage list"
  req_question :: "string option"

text \<open>The argument of \<open>groq.chat.completions.create\<close>.\<close>

record completion_request =
  cr_messages :: "ChatMessage list"
  cr_model :: string
  cr_temperature :: rat
  cr_max_tokens :: nat

text \<open>
  A completion: its choices, each with \<open>message?.content\<close> (\<open>None\<close> when the message or
  its content is missing or null).
\<close>

type_synonym completion = "string option list"

text \<open>
  The completion provider is outside the program: a function of the key the client was
  made with and of the request, which throws or returns a completion.
\<close>

type_synonym provider = "string \<Rightarrow> completion_request \<Rightarrow> thrown + completion"

text \<open>\<open>NextResponse.json(body, { status })\<close>: the status and the fields of the body.\<close>

record response =
  status :: nat
  body :: "(string \<times> string) list"

text \<open>
  What the handler has done by the time it answers, in order: read the request body,
  loaded the research content, made the client, built the system message, called the
  provider.
\<close>

datatype stage =
  ReadBody | LoadedContent | CreatedClient string | BuiltPrompt | CalledProvider completion_request

text \<open>\<open>s.includes(pat)\<close>\<close>

definition includes_text :: "string \<Rightarrow> string \<Rightarrow> bool" where
  "includes_text pat s = (split_at_first pat s \<noteq> None)"

definition errorMessage :: "thrown \<Rightarrow> string" where
  "errorMessage e = (case e of Error m \<Rightarrow> m | NonError \<Rightarrow> ''Unknown error occurred'')"

text \<open>The \<open>catch\<close> of the handler.\<close>

definition POST_catch :: "thrown \<Rightarrow> response" where
  \<open>POST_catch e =
     (if includes_text ''401'' (errorMessage e) \<or> includes_text ''Unauthorized'' (errorMessage e)
      then \<lparr> status = 401,
             body = [(''error'', ''Invalid API Key''),
                     (''message'', ''Your Groq API key is invalid. Please get a free key from https://console.groq.com/keys'')] \<rparr>
      else \<lparr> status = 500,
             body = [(''error'', ''Failed to generate response''),
                     (''message'', errorMessage e)] \<rparr>)\<close>

definition systemMessage :: "string \<Rightarrow> string" where
  \<open>systemMessage researchContent =
     ''You are a research assistant answering questions about my research, projects, publications, and expertise.\<newline>''
     @ ''You have access to detailed information about my work including blog posts, projects, and publications.\<newline>''
     @ ''Answer questions based ONLY on the information provided below.\<newline>''
     @ ''If you don't have specific information to answer a question, be honest about it.\<newline>''
     @ ''Keep responses concise, helpful, and informative.\<newline>''
     @ ''\<newline>''
     @ ''MY RESEARCH AND WORK INFORMATION:\<newline>''
     @ replicate 60 (CHR ''='') @ ''\<newline>''
     @ researchContent @ ''\<newline>''
     @ replicate 60 (CHR ''='') @ ''\<newline>''
     @ ''\<newline>''
     @ ''Important Guidelines:\<newline>''
     @ ''- Only answer based on the provided research content\<newline>''
     @ ''- If asked about something not mentioned in the content, say you don't have that specific information\<newline>''
     @ ''- Be helpful and direct\<newline>''
     @ ''- When referencing projects or publications, mention them by name\<newline>''
     @ ''- Provide relevant details when available''\<close>

definition build_request :: "string \<Rightarrow> ChatMessage list \<Rightarrow> string \<Rightarrow> completion_request" where
  "build_request researchContent messages question =
     \<lparr> cr_messages =
         [\<lparr> cm_role = System, cm_content = systemMessage researchContent \<rparr>]
         @ map (\<lambda>m. \<lparr> cm_role = cm_role m, cm_content = cm_content m \<rparr>) messages
         @ [\<lparr> cm_role = User, cm_content = question \<rparr>],
       cr_model = ''llama-3.1-8b-instant'',
       cr_temperature = 7 / 10,
       cr_max_tokens = 500 \<rparr>"

text \<open>\<open>completion.choices[0]?.message?.content || "Sorry, ..."\<close>\<close>

definition responseContent :: "completion \<Rightarrow> string" where
  \<open>responseContent choices =
     (case choices of
        [] \<Rightarrow> ''Sorry, I couldn't generate a response.''
      | c # cs \<Rightarrow>
          (case c of
             None \<Rightarrow> ''Sorry, I couldn't generate a response.''
           | Some text \<Rightarrow>
               (if text = [] then ''Sorry, I couldn't generate a response.'' else text)))\<close>

definition not_configured :: response where
  \<open>not_configured =
     \<lparr> status = 500,
       body = [(''error'', ''GROQ_API_KEY not configured''),
               (''message'', ''Please set GROQ_API_KEY in your .env.local file. Get a free key at https://console.groq.com/keys'')] \<rparr>\<close>

definition question_required :: response where
  "question_required = \<lparr> status = 400, body = [(''error'', ''Question is required'')] \<rparr>"

text \<open>The part of the \<open>try\<close> after the two tests, with the key and the question in hand.\<close>

definition POST_answer ::
  "string \<Rightarrow> ChatMessage list \<Rightarrow> string \<Rightarrow> world \<Rightarrow> provider \<Rightarrow> string
     \<Rightarrow> response \<times> stage list" where
  \<open>POST_answer key messages question w groq now =
     (let researchContent = loadResearchContent w;
          req = build_request researchContent messages question;
          stages = [ReadBody, LoadedContent, CreatedClient key, BuiltPrompt, CalledProvider req]
      in (case groq key req of
            Inl e \<Rightarrow> (POST_catch e, stages)
          | Inr completion \<Rightarrow>
              (\<lparr> status = 200,
                 body = [(''response'', responseContent completion),
                         (''model'', ''llama-3.1-8b''),
                         (''timestamp'', now)] \<rparr>,
               stages)))\<close>

text \<open>
  The handler. Its inputs: \<open>process.env.GROQ_API_KEY\<close>, the outcome of
  \<open>request.json()\<close>, the files, the provider, and \<open>new Date().toISOString()\<close> at the
  time of the answer. It gives the response and the stages it went through. The
  constructor of the client is taken to return.
\<close>

definition POST ::
  "string option \<Rightarrow> thrown + ChatRequest \<Rightarrow> world \<Rightarrow> provider \<Rightarrow> string
     \<Rightarrow> response \<times> stage list" where
  "POST apiKey request_json w groq now =
     (case apiKey of
        None \<Rightarrow> (not_configured, [])
      | Some key \<Rightarrow>
          (if key = [] then (not_configured, [])
           else (case request_json of
                   Inl e \<Rightarrow> (POST_catch e, [ReadBody])
                 | Inr b \<Rightarrow>
                     (case req_question b of
                        None \<Rightarrow> (question_required, [ReadBody])
                      | Some question \<Rightarrow>
                          (if question = [] \<or> trim question = []
                           then (question_required, [ReadBody])
                           else POST_answer key (req_messages b) question w groq now)))))"

section \<open>The chat widget\<close>

text \<open>\<open>Date.now()\<close> and a status code inside a template literal: the decimal digits.\<close>

definition digit :: "nat \<Rightarrow> char" where
  "digit d = ''0123456789'' ! (d mod 10)"

fun show_nat :: "nat \<Rightarrow> string" where
  "show_nat n = (if n < 10 then [digit n] else show_nat (n div 10) @ [digit (n mod 10)])"

record Message =
  msg_id :: string
  msg_role :: role
  msg_content :: string
  msg_timestamp :: nat

text \<open>
  The state of the component that the handler reads and writes. \<open>isOpen\<close> and
  \<open>isHovered\<close> only choose what is drawn and are left out.
\<close>

record chat_state =
  messages :: "Message list"
  inputValue :: string
  isLoading :: bool
  error :: "string option"

text \<open>The body of the \<open>fetch\<close> to \<open>/api/research-chat\<close>.\<close>

record fetch_request =
  fr_messages :: "ChatMessage list"
  fr_question :: string

text \<open>
  \<open>handleSendMessage\<close> up to its \<open>await\<close>, at time \<open>now\<close>, run on the state of the
  render it closes over: the new state, and the request sent if one was. The only test
  is the one on the input.
\<close>

definition handleSendMessage :: "nat \<Rightarrow> chat_state \<Rightarrow> chat_state \<times> fetch_request option" where
  "handleSendMessage now s =
     (if trim (inputValue s) = [] then (s, None)
      else
        (let userMessage = \<lparr> msg_id = ''user_'' @ show_nat now, msg_role = User,
                               msg_content = inputValue s, msg_timestamp = now \<rparr>
         in (s\<lparr> messages := messages s @ [userMessage], inputValue := [],
                 isLoading := True, error := None \<rparr>,
             Some \<lparr> fr_messages = map (\<lambda>m. \<lparr> cm_role = msg_role m, cm_content = msg_content m \<rparr>)
                                     (messages s),
                    fr_question = inputValue s \<rparr>)))"

text \<open>
  How the request ends: \<open>fetch\<close> rejects; or the response is not ok, with its status and
  the outcome of \<open>response.json()\<close> read for \<open>errorData.error\<close>; or it is ok, with the
  outcome of \<open>response.json()\<close> read for \<open>data.response\<close>.
\<close>

datatype fetch_outcome =
  FetchThrows thrown
| NotOk nat "thrown + string option"
| Ok "thrown + string"

text \<open>The \<open>try\<close> after the \<open>await\<close>: the answer, or the value thrown.\<close>

definition fetch_result :: "fetch_outcome \<Rightarrow> thrown + string" where
  "fetch_result out =
     (case out of
        FetchThrows e \<Rightarrow> Inl e
      | NotOk st j \<Rightarrow>
          (case j of
             Inl e \<Rightarrow> Inl e
           | Inr err \<Rightarrow>
               Inl (Error (case err of
                             None \<Rightarrow> ''HTTP error! status: '' @ show_nat st
                           | Some m \<Rightarrow>
                               (if m = [] then ''HTTP error! status: '' @ show_nat st else m))))
      | Ok j \<Rightarrow> j)"

text \<open>The rest of \<open>handleSendMessage\<close>, run when the request has ended, at time \<open>now\<close>.\<close>

definition handleSendMessage_settle :: "nat \<Rightarrow> fetch_outcome \<Rightarrow> chat_state \<Rightarrow> chat_state" where
  \<open>handleSendMessage_settle now out s =
     (case fetch_result out of
        Inr answer \<Rightarrow>
          s\<lparr> messages := messages s @
                [\<lparr> msg_id = ''assistant_'' @ show_nat now, msg_role = Assistant,
                   msg_content = answer, msg_timestamp = now \<rparr>],
             isLoading := False \<rparr>
      | Inl err \<Rightarrow>
          (let errorMessage = (case err of Error m \<Rightarrow> m | NonError \<Rightarrow> ''Failed to get response'')
           in s\<lparr> error := Some errorMessage,
                  messages := messages s @
                    [\<lparr> msg_id = ''assistant_error_'' @ show_nat now, msg_role = Assistant,
                       msg_content = ''Sorry, I encountered an error: '' @ errorMessage
                          @ ''. Please make sure the API is configured correctly.'',
                       msg_timestamp = now \<rparr>],
                  isLoading := False \<rparr>))\<close>

text \<open>The \<open>disabled\<close> attributes of the text input and of the send button.\<close>

definition input_disabled :: "chat_state \<Rightarrow> bool" where
  "input_disabled s = isLoading s"

definition button_disabled :: "chat_state \<Rightarrow> bool" where
  "button_disabled s = (isLoading s \<or> trim (inputValue s) = [])"

definition initial_state :: chat_state where
  "initial_state = \<lparr> messages = [], inputValue = [], isLoading = False, error = None \<rparr>"

text \<open>
  The states the widget gets into through its own controls, with the number of requests
  in flight. A disabled control gives no event: typing and the Enter key need the input
  enabled, a click needs the button enabled. Every event runs its handler on the state of
  the latest render.
\<close>

inductive reachable :: "chat_state \<Rightarrow> nat \<Rightarrow> bool" where
  start: "reachable initial_state 0"
| typing: "reachable s p \<Longrightarrow> \<not> input_disabled s \<Longrightarrow> reachable (s\<lparr> inputValue := text \<rparr>) p"
| enter_key: "reachable s p \<Longrightarrow> \<not> input_disabled s \<Longrightarrow> handleSendMessage now s = (s', r)
     \<Longrightarrow> reachable s' (p + (if r = None then 0 else 1))"
| click: "reachable s p \<Longrightarrow> \<not> button_disabled s \<Longrightarrow> handleSendMessage now s = (s', r)
     \<Longrightarrow> reachable s' (p + (if r = None then 0 else 1))"
| settle: "reachable s p \<Longrightarrow> 0 < p \<Longrightarrow> reachable (handleSendMessage_settle now out s) (p - 1)"

section \<open>Notions used in the statements\<close>

text \<open>The lines of a text: its pieces between line feeds.\<close>

fun lines_of :: "string \<Rightarrow> string list" where
  "lines_of [] = [[]]"
| "lines_of (c # s) =
     (if c = CHR 0x0A then [] # lines_of s
      else (case lines_of s of [] \<Rightarrow> [[c]] | l # ls \<Rightarrow> (c # l) # ls))"

text \<open>
  \<open>quoted_title s t\<close>: the text \<open>s\<close> begins with \<open>title:\<close>, white space if any, and the
  non-empty text \<open>t\<close> between two quotes, single or double, with no quote inside.
\<close>

definition quoted_title :: "string \<Rightarrow> string \<Rightarrow> bool" where
  "quoted_title s t \<longleftrightarrow>
     (\<exists>ws q1 q2 post. s = ''title:'' @ ws @ q1 # t @ q2 # post
        \<and> list_all is_space ws \<and> is_quote q1 \<and> is_quote q2
        \<and> t \<noteq> [] \<and> list_all (\<lambda>c. \<not> is_quote c) t)"

text \<open>
  \<open>title_rule file text t\<close>: \<open>t\<close> is the quoted title at the leftmost place of the whole
  text where there is one; with no such place, \<open>t\<close> is the file name without \<open>.mdx\<close>.
\<close>

definition title_rule :: "string \<Rightarrow> string \<Rightarrow> string \<Rightarrow> bool" where
  "title_rule file c t \<longleftrightarrow>
     (\<exists>pre rest. c = pre @ rest \<and> quoted_title rest t
        \<and> (\<forall>n < length pre. \<forall>t'. \<not> quoted_title (drop n c) t'))
     \<or> ((\<forall>n t'. \<not> quoted_title (drop n c) t') \<and> t = strip_mdx file)"

text \<open>\<open>first_occurrence pat s a b\<close>: \<open>s\<close> is \<open>a\<close>, \<open>pat\<close>, \<open>b\<close>, and \<open>pat\<close> occurs nowhere earlier.\<close>

definition first_occurrence :: "string \<Rightarrow> string \<Rightarrow> string \<Rightarrow> string \<Rightarrow> bool" where
  "first_occurrence pat s a b \<longleftrightarrow>
     s = a @ pat @ b \<and> (\<forall>a' b'. s = a' @ pat @ b' \<longrightarrow> length a \<le> length a')"

text \<open>
  \<open>body_rule text b\<close>: when the text begins with the marker line and the marker line comes
  again as a whole line, \<open>b\<close> is what follows its first return; otherwise \<open>b\<close> is the
  whole text.
\<close>

definition body_rule :: "string \<Rightarrow> string \<Rightarrow> bool" where
  \<open>body_rule c b \<longleftrightarrow>
     (\<exists>fm rest. c = ''---\<newline>'' @ rest \<and> first_occurrence ''\<newline>---\<newline>'' rest fm b)
     \<or> ((\<forall>fm b'. c \<noteq> ''---\<newline>'' @ fm @ ''\<newline>---\<newline>'' @ b') \<and> b = c)\<close>

text \<open>The files of a listing that can be read, with their text.\<close>

fun readable_files :: "dir_entry list \<Rightarrow> (string \<times> string) list" where
  "readable_files [] = []"
| "readable_files ((file, Inl e) # files) = readable_files files"
| "readable_files ((file, Inr text) # files) = (file, text) # readable_files files"

text \<open>
  The natural keys of what is on disk: the names of the \<open>.mdx\<close> entries, the names of
  the project and publication records, and whether the site information can be loaded.
  No file text, date or description is part of them.
\<close>

record natural_keys =
  blog_keys :: "string list"
  project_keys :: "string list"
  publication_keys :: "string list"
  site_key :: bool

definition keys_of :: "world \<Rightarrow> natural_keys" where
  "keys_of w =
     \<lparr> blog_keys = (case blog_dir w of
                      Some (Inr entries) \<Rightarrow> map fst (mdx_files entries)
                    | _ \<Rightarrow> []),
       project_keys = (case collections_file w of
                         Some (Parsed text data) \<Rightarrow>
                           (case projects_items data of
                              Some items \<Rightarrow> map p_name items
                            | None \<Rightarrow> [])
                       | _ \<Rightarrow> []),
       publication_keys = (case collections_file w of
                             Some (Parsed text data) \<Rightarrow>
                               (case publications_items data of
                                  Some items \<Rightarrow> map pub_name items
                                | None \<Rightarrow> [])
                           | _ \<Rightarrow> []),
       site_key = (case site_module w of
                     Inl e \<Rightarrow> False
                   | Inr siteData \<Rightarrow>
                       (case read_personal_text w of Inl e \<Rightarrow> False | Inr text \<Rightarrow> True)) \<rparr>"

text \<open>The identifiers, from the category and the key alone.\<close>

definition ids_of :: "natural_keys \<Rightarrow> string list" where
  "ids_of k =
     map (\<lambda>file. ''blog_'' @ file) (blog_keys k)
     @ map (\<lambda>name. ''project_'' @ name) (project_keys k)
     @ map (\<lambda>name. ''publication_'' @ name) (publication_keys k)
     @ (if site_key k then [''site_info''] else [])"

section \<open>Example inputs\<close>

definition no_files :: world where
  "no_files = \<lparr> blog_dir = None, collections_file = None, personal_file = None,
                 site_module = Inl (Error ''Cannot find module'') \<rparr>"

definition project_X :: project_item where
  "project_X = \<lparr> p_name = ''X'', p_dates = ''2020'', p_description = ''D'',
                  p_technologies = Some [''Go''] \<rparr>"

definition collections_X :: "string \<Rightarrow> world" where
  "collections_X text =
     no_files\<lparr> collections_file :=
       Some (Parsed text \<lparr> projects_items = Some [project_X], publications_items = None \<rparr>) \<rparr>"

definition first_post :: world where
  \<open>first_post =
     no_files\<lparr> blog_dir :=
       Some (Inr [(''my-first-post.mdx'',
                   Inr ''---\<newline>title: "Hello"\<newline>---\<newline>World'')]) \<rparr>\<close>

definition first_post_edited :: world where
  \<open>first_post_edited =
     no_files\<lparr> blog_dir :=
       Some (Inr [(''my-first-post.mdx'',
                   Inr ''---\<newline>title: "Hello again"\<newline>---\<newline>A longer text'')]) \<rparr>\<close>

definition title_in_body :: world where
  \<open>title_in_body =
     no_files\<lparr> blog_dir :=
       Some (Inr [(''a.mdx'', Inr ''The field title: "Draft" is optional.'')]) \<rparr>\<close>

definition unreadable_post :: world where
  "unreadable_post =
     no_files\<lparr> blog_dir :=
       Some (Inr [(''a.mdx'', Inl (Error ''EISDIR: illegal operation on a directory, read''))]) \<rparr>"

definition paper_P :: publication_item where
  "paper_P = \<lparr> pub_name = ''P'', pub_authors = None, pub_dates = ''2021'',
                pub_description = ''E'' \<rparr>"

definition mixed_blog :: world where
  "mixed_blog =
     \<lparr> blog_dir = Some (Inr [(''a.mdx'', Inl (Error ''EACCES: permission denied'')),
                              (''b.mdx'', Inr ''Body'')]),
       collections_file =
         Some (Parsed ''{}'' \<lparr> projects_items = Some [project_X],
                                 publications_items = Some [paper_P] \<rparr>),
       personal_file = Some (Parsed ''{}'' ''{}''),
       site_module = Inl (Error ''Cannot find module'') \<rparr>"

definition failing_provider :: "string \<Rightarrow> provider" where
  "failing_provider message key req = Inl (Error message)"

definition silent_provider :: provider where
  "silent_provider key req = Inr []"

definition blank_request :: ChatRequest where
  "blank_request = \<lparr> req_messages = [], req_question = Some ''  '' \<rparr>"

definition hello_request :: ChatRequest where
  "hello_request = \<lparr> req_messages = [], req_question = Some ''hello'' \<rparr>"

definition waiting_state :: chat_state where
  "waiting_state =
     \<lparr> messages = [\<lparr> msg_id = ''user_1'', msg_role = User, msg_content = ''hi'',
                      msg_timestamp = 1 \<rparr>],
       inputValue = [], isLoading = True, error = None \<rparr>"

section \<open>Facts about the text functions\<close>

lemma dropWhile_all: "(\<forall>x\<in>set (dropWhile P s). P x) \<longleftrightarrow> (\<forall>x\<in>set s. P x)"
  by (induction s) auto

lemma trim_empty_iff: "trim s = [] \<longleftrightarrow> list_all is_space s"
  by (simp add: trim_def dropWhile_eq_Nil_conv list_all_iff dropWhile_all)

lemma starts_with_append: "starts_with p (p @ b)"
  by (simp add: starts_with_def)

lemma starts_with_split: "starts_with p s \<Longrightarrow> s = p @ drop (length p) s"
  unfolding starts_with_def by (metis append_take_drop_id)

lemma split_at_first_sound: "split_at_first pat s = Some (a, b) \<Longrightarrow> s = a @ pat @ b"
proof (induction s arbitrary: a b)
  case Nil
  then show ?case by (simp split: if_splits)
next
  case (Cons c s)
  show ?case
  proof (cases "starts_with pat (c # s)")
    case True
    with Cons.prems have "a = []" "b = drop (length pat) (c # s)" by simp_all
    with starts_with_split [OF True] show ?thesis by simp
  next
    case False
    with Cons.prems obtain a' where "split_at_first pat s = Some (a', b)" "a = c # a'"
      by (auto split: option.splits)
    with Cons.IH show ?thesis by simp
  qed
qed

lemma split_at_first_complete: "split_at_first pat (a @ pat @ b) \<noteq> None"
proof (induction a)
  case Nil
  show ?case
  proof (cases "pat @ b")
    case Nil
    then show ?thesis by simp
  next
    case (Cons c s)
    have "starts_with pat (pat @ b)" by (rule starts_with_append)
    with Cons show ?thesis by simp
  qed
next
  case (Cons x a)
  then show ?case by (auto split: option.splits)
qed

lemma includes_text_iff: "includes_text pat s \<longleftrightarrow> (\<exists>a b. s = a @ pat @ b)"
proof
  assume "includes_text pat s"
  then obtain a b where "split_at_first pat s = Some (a, b)"
    by (auto simp: includes_text_def)
  then show "\<exists>a b. s = a @ pat @ b" using split_at_first_sound by blast
next
  assume "\<exists>a b. s = a @ pat @ b"
  then show "includes_text pat s"
    using split_at_first_complete by (auto simp: includes_text_def)
qed

lemma frontmatter_match_sound:
  \<open>frontmatter_match content = Some (fm, b) \<Longrightarrow> content = ''---\<newline>'' @ fm @ ''\<newline>---\<newline>'' @ b\<close>
proof -
  assume a: "frontmatter_match content = Some (fm, b)"
  then have s: \<open>starts_with ''---\<newline>'' content\<close>
    and m: \<open>split_at_first ''\<newline>---\<newline>'' (drop 4 content) = Some (fm, b)\<close>
    by (auto simp: frontmatter_match_def split: if_splits)
  from starts_with_split [OF s] have \<open>content = ''---\<newline>'' @ drop 4 content\<close> by (simp add: eval_nat_numeral)
  with split_at_first_sound [OF m] show ?thesis by metis
qed

lemma quote_not_space: "is_quote q \<Longrightarrow> \<not> is_space q"
  by (auto simp: is_quote_def is_space_def)

lemma title_at_sound: "title_at s = Some t \<Longrightarrow> quoted_title s t"
proof -
  assume a: "title_at s = Some t"
  then have sw: "starts_with ''title:'' s"
    by (auto simp: title_at_def split: if_splits)
  define r0 where "r0 = drop 6 s"
  from starts_with_split [OF sw] have s: "s = ''title:'' @ r0" by (simp add: r0_def eval_nat_numeral)
  from a sw obtain q r where d: "dropWhile is_space r0 = q # r" and q: "is_quote q"
    and t: "t = takeWhile (\<lambda>c. \<not> is_quote c) r" and tn: "t \<noteq> []"
    and rest: "dropWhile (\<lambda>c. \<not> is_quote c) r \<noteq> []"
    by (auto simp: title_at_def r0_def Let_def split: if_splits list.splits)
  from rest obtain q2 post where dr: "dropWhile (\<lambda>c. \<not> is_quote c) r = q2 # post"
    by (cases "dropWhile (\<lambda>c. \<not> is_quote c) r") auto
  then have q2: "is_quote q2" using hd_dropWhile [of "\<lambda>c. \<not> is_quote c" r] by auto
  have r: "r = t @ q2 # post" using takeWhile_dropWhile_id [of "\<lambda>c. \<not> is_quote c" r] t dr by simp
  have r0: "r0 = takeWhile is_space r0 @ q # r"
    using takeWhile_dropWhile_id [of is_space r0] d by simp
  have ws: "list_all is_space (takeWhile is_space r0)"
    unfolding list_all_iff using set_takeWhileD by fastforce
  have tq: "list_all (\<lambda>c. \<not> is_quote c) t"
    unfolding t list_all_iff using set_takeWhileD by fastforce
  show ?thesis unfolding quoted_title_def
    using s r0 r ws q q2 tn tq by (metis)
qed

lemma title_at_complete: "quoted_title s t \<Longrightarrow> title_at s = Some t"
proof -
  assume "quoted_title s t"
  then obtain ws q1 q2 post where s: "s = ''title:'' @ ws @ q1 # t @ q2 # post"
    and ws: "list_all is_space ws" and q1: "is_quote q1" and q2: "is_quote q2"
    and tn: "t \<noteq> []" and tq: "list_all (\<lambda>c. \<not> is_quote c) t"
    unfolding quoted_title_def by blast
  have sw: "starts_with ''title:'' s" unfolding s by (rule starts_with_append)
  have d6: "drop 6 s = ws @ q1 # t @ q2 # post" unfolding s by simp
  have dw: "dropWhile is_space (ws @ q1 # t @ q2 # post) = q1 # t @ q2 # post"
    using ws quote_not_space [OF q1] by (simp add: dropWhile_append3 list_all_iff)
  have tw: "takeWhile (\<lambda>c. \<not> is_quote c) (t @ q2 # post) = t"
    using tq q2 by (simp add: takeWhile_tail list_all_iff)
  have dq: "dropWhile (\<lambda>c. \<not> is_quote c) (t @ q2 # post) = q2 # post"
    using tq q2 by (simp add: dropWhile_append3 list_all_iff)
  show ?thesis
    unfolding title_at_def using sw d6 dw tw dq q1 q2 tn by (simp add: Let_def)
qed

lemma title_at_iff: "title_at s = Some t \<longleftrightarrow> quoted_title s t"
  using title_at_sound title_at_complete by blast

lemma title_match_Some:
  "title_match c = Some t \<Longrightarrow>
     \<exists>pre rest. c = pre @ rest \<and> title_at rest = Some t
        \<and> (\<forall>n < length pre. title_at (drop n c) = None)"
proof (induction c)
  case Nil
  then show ?case by simp
next
  case (Cons x c)
  show ?case
  proof (cases "title_at (x # c)")
    case (Some t')
    with Cons.prems have "t' = t" by simp
    with Some have "x # c = [] @ (x # c) \<and> title_at (x # c) = Some t
        \<and> (\<forall>n < length ([]::string). title_at (drop n (x # c)) = None)" by simp
    then show ?thesis by blast
  next
    case None
    with Cons.prems have "title_match c = Some t" by simp
    from Cons.IH [OF this] obtain pre rest where p: "c = pre @ rest" "title_at rest = Some t"
      "\<forall>n < length pre. title_at (drop n c) = None" by blast
    have "\<forall>n < length (x # pre). title_at (drop n (x # c)) = None"
    proof (intro allI impI)
      fix n assume "n < length (x # pre)"
      then show "title_at (drop n (x # c)) = None"
        using None p(3) by (cases n) auto
    qed
    with p(1,2) have "x # c = (x # pre) @ rest \<and> title_at rest = Some t
       \<and> (\<forall>n < length (x # pre). title_at (drop n (x # c)) = None)" by simp
    then show ?thesis by blast
  qed
qed

lemma title_match_None: "title_match c = None \<Longrightarrow> title_at (drop n c) = None"
proof (induction c arbitrary: n)
  case Nil
  then show ?case by simp
next
  case (Cons x c)
  then show ?case by (cases n) (auto split: option.splits)
qed

section \<open>The endpoint: configuration, validation and provider failures\<close>

text \<open>
  C3. A request that arrives while \<open>GROQ_API_KEY\<close> is absent from the environment is
  answered with status 500 and the error \<open>GROQ_API_KEY not configured\<close>, whatever the
  request, the files and the provider are; the handler has gone through no stage by then:
  the body is not read, nothing is loaded and the provider is not called.
\<close>

theorem POST_without_key:
  \<open>POST None request_json w groq now =
     (\<lparr> status = 500,
        body = [(''error'', ''GROQ_API_KEY not configured''),
                (''message'', ''Please set GROQ_API_KEY in your .env.local file. Get a free key at https://console.groq.com/keys'')] \<rparr>,
      [])\<close>
  by (simp add: POST_def not_configured_def)

text \<open>
  C2, as stated, fails: the test on the key comes first, so a blank question sent while
  the key is absent is answered with 500, not 400.
\<close>

theorem blank_question_without_key_counterexample:
  \<open>req_question blank_request = Some ''  '' \<and> trim ''  '' = []
   \<and> status (fst (POST None (Inr blank_request) no_files silent_provider ''now'')) = 500
   \<and> map_of (body (fst (POST None (Inr blank_request) no_files silent_provider ''now''))) ''error''
       = Some ''GROQ_API_KEY not configured''\<close>
  by (simp add: POST_def not_configured_def blank_request_def trim_def is_space_def)

text \<open>
  C2, amended. When the key is configured and the body of the request can be read, a
  question that is missing, empty or white space only is answered with status 400 and
  the error \<open>Question is required\<close>; the only stage gone through is the reading of the
  body: no content is loaded, no prompt is built and the provider is not called.
\<close>

theorem blank_question_rejected:
  assumes "key \<noteq> []"
    and "req_question b = None \<or> (\<exists>q. req_question b = Some q \<and> trim q = [])"
  shows "POST (Some key) (Inr b) w groq now =
           (\<lparr> status = 400, body = [(''error'', ''Question is required'')] \<rparr>, [ReadBody])"
  using assms by (auto simp: POST_def question_required_def)

theorem blank_question_rejected_witness:
  \<open>''gsk_1'' \<noteq> [] \<and> req_question blank_request = Some ''  '' \<and> trim ''  '' = []
   \<and> POST (Some ''gsk_1'') (Inr blank_request) no_files silent_provider ''now'' =
        (\<lparr> status = 400, body = [(''error'', ''Question is required'')] \<rparr>, [ReadBody])\<close>
proof -
  have k: "''gsk_1'' \<noteq> []" by simp
  have q: "req_question blank_request = Some ''  ''" by (simp add: blank_request_def)
  have t: "trim ''  '' = []" by (simp add: trim_def is_space_def)
  from q t have "req_question blank_request = None
      \<or> (\<exists>q. req_question blank_request = Some q \<and> trim q = [])" by blast
  from blank_question_rejected [OF k this] k q t show ?thesis by blast
qed

text \<open>
  C4. When the call of the provider throws, the handler answers with a response. If the
  message of the thrown error contains \<open>401\<close> or \<open>Unauthorized\<close>, the status is 401 and
  the error is \<open>Invalid API Key\<close>; otherwise the status is 500, the error is
  \<open>Failed to generate response\<close> and the message is the message of the thrown error
  (\<open>errorMessage\<close>: for a thrown value that is no \<open>Error\<close>, the text
  \<open>Unknown error occurred\<close>). The provider is called only with a key and a question
  that passed the two tests.
\<close>

theorem provider_failure_response:
  assumes "key \<noteq> []"
    and "req_question b = Some question" and "trim question \<noteq> []"
    and "groq key (build_request (loadResearchContent w) (req_messages b) question) = Inl e"
  shows \<open>fst (POST (Some key) (Inr b) w groq now) =
     (if (\<exists>x y. errorMessage e = x @ ''401'' @ y)
          \<or> (\<exists>x y. errorMessage e = x @ ''Unauthorized'' @ y)
      then \<lparr> status = 401,
             body = [(''error'', ''Invalid API Key''),
                     (''message'', ''Your Groq API key is invalid. Please get a free key from https://console.groq.com/keys'')] \<rparr>
      else \<lparr> status = 500,
             body = [(''error'', ''Failed to generate response''),
                     (''message'', errorMessage e)] \<rparr>)\<close>
proof -
  from assms(3) have "question \<noteq> []" by (auto simp: trim_def)
  with assms have "fst (POST (Some key) (Inr b) w groq now) = POST_catch e"
    by (simp add: POST_def POST_answer_def Let_def)
  then show ?thesis
    by (simp add: POST_catch_def includes_text_iff)
qed

theorem provider_failure_response_witness:
  \<open>''gsk_1'' \<noteq> [] \<and> req_question hello_request = Some ''hello'' \<and> trim ''hello'' \<noteq> []
   \<and> failing_provider ''Unauthorized'' ''gsk_1''
        (build_request (loadResearchContent no_files) (req_messages hello_request) ''hello'')
       = Inl (Error ''Unauthorized'')
   \<and> fst (POST (Some ''gsk_1'') (Inr hello_request) no_files (failing_provider ''Unauthorized'') ''now'')
       = \<lparr> status = 401,
           body = [(''error'', ''Invalid API Key''),
                   (''message'', ''Your Groq API key is invalid. Please get a free key from https://console.groq.com/keys'')] \<rparr>\<close>
proof -
  have k: "''gsk_1'' \<noteq> []" by simp
  have q: "req_question hello_request = Some ''hello''" by (simp add: hello_request_def)
  have t: "trim ''hello'' \<noteq> []" by (simp add: trim_def is_space_def)
  have f: "failing_provider ''Unauthorized'' ''gsk_1''
        (build_request (loadResearchContent no_files) (req_messages hello_request) ''hello'')
       = Inl (Error ''Unauthorized'')" by (simp add: failing_provider_def)
  have "\<exists>x y. errorMessage (Error ''Unauthorized'') = x @ ''Unauthorized'' @ y"
    by (rule exI [of _ "[]"], rule exI [of _ "[]"]) (simp add: errorMessage_def)
  then have c: "(\<exists>x y. errorMessage (Error ''Unauthorized'') = x @ ''401'' @ y)
      \<or> (\<exists>x y. errorMessage (Error ''Unauthorized'') = x @ ''Unauthorized'' @ y)" ..
  note r = provider_failure_response
    [where key = "''gsk_1''" and b = hello_request and question = "''hello''"
       and groq = "failing_provider ''Unauthorized''" and w = no_files
       and e = "Error ''Unauthorized''" and now = "''now''",
     OF k q t f, unfolded if_P [OF c]]
  from k q t f r show ?thesis by (intro conjI)
qed

section \<open>The context string\<close>

text \<open>
  C5. When the blog directory, the collections file and the personal file are all
  absent, \<open>loadResearchContent\<close> returns the text \<open>No research content available\<close>, which
  is not the empty string.
\<close>

theorem no_sources_placeholder:
  assumes "blog_dir w = None" and "collections_file w = None" and "personal_file w = None"
  shows "loadResearchContent w = ''No research content available''
         \<and> loadResearchContent w \<noteq> []"
  using assms
  by (simp add: loadResearchContent_def loadResearchContent_try_def blog_block_def
      collections_block_def personal_block_def)

theorem no_sources_placeholder_witness:
  "blog_dir no_files = None \<and> collections_file no_files = None \<and> personal_file no_files = None
   \<and> loadResearchContent no_files = ''No research content available''"
proof -
  have a: "blog_dir no_files = None" and b: "collections_file no_files = None"
    and c: "personal_file no_files = None" by (simp_all add: no_files_def)
  from no_sources_placeholder [OF a b c] a b c show ?thesis by blast
qed

section \<open>Project records\<close>

text \<open>
  C7. A collections file with the one project \<open>X\<close> (dates \<open>2020\<close>, description \<open>D\<close>,
  technologies \<open>Go\<close>) loads as one document with the identifier \<open>project_X\<close>, the tags
  \<open>project\<close> and \<open>Go\<close>, and a content whose last line is \<open>Technologies: Go\<close>. For a
  project without the technologies field, that line is \<open>Technologies: N/A\<close>.
\<close>

theorem project_X_document:
  \<open>loadProjectsData (collections_X text) =
     [\<lparr> doc_id = ''project_X'', doc_title = ''X'',
        doc_content = ''Title: X\<newline>Dates: 2020\<newline>Description: D\<newline>Technologies: Go'',
        doc_source = Project,
        doc_metadata = \<lparr> md_url = None, md_date = None,
                         md_tags = Some [''project'', ''Go''] \<rparr> \<rparr>]
   \<and> lines_of (doc_content (project_document project_X)) =
       [''Title: X'', ''Dates: 2020'', ''Description: D'', ''Technologies: Go'']
   \<and> doc_content (project_document (p\<lparr> p_technologies := None \<rparr>)) =
       ''Title: '' @ p_name p @ ''\<newline>Dates: '' @ p_dates p
       @ ''\<newline>Description: '' @ p_description p @ ''\<newline>Technologies: N/A''
   \<and> md_tags (doc_metadata (project_document (p\<lparr> p_technologies := None \<rparr>))) = Some [''project'']\<close>
  by (simp add: loadProjectsData_def loadProjectsData_try_def collections_X_def no_files_def
      project_X_def project_document_def technologies_text_def)

section \<open>The chat widget: one request at a time\<close>

lemma handleSendMessage_blank: "trim (inputValue s) = [] \<Longrightarrow> handleSendMessage now s = (s, None)"
  by (simp add: handleSendMessage_def)

lemma handleSendMessage_fst_snd:
  "(fst (handleSendMessage now s) = s \<and> snd (handleSendMessage now s) = None)
   \<or> (isLoading (fst (handleSendMessage now s)) \<and> inputValue (fst (handleSendMessage now s)) = []
       \<and> snd (handleSendMessage now s) \<noteq> None)"
  by (simp add: handleSendMessage_def Let_def)

lemma handleSendMessage_cases:
  assumes "handleSendMessage now s = (s', r)"
  shows "(s' = s \<and> r = None) \<or> (isLoading s' \<and> inputValue s' = [] \<and> r \<noteq> None)"
proof -
  from assms have "fst (handleSendMessage now s) = s'" "snd (handleSendMessage now s) = r"
    by (simp_all only: fst_conv snd_conv)
  with handleSendMessage_fst_snd [of now s] show ?thesis by (simp only:)
qed

lemma settle_not_loading: "\<not> isLoading (handleSendMessage_settle now out s)"
  by (simp add: handleSendMessage_settle_def Let_def split: sum.splits)

lemma reachable_invariant:
  "reachable s p \<Longrightarrow> (p = 0 \<and> \<not> isLoading s) \<or> (p = 1 \<and> isLoading s \<and> inputValue s = [])"
proof (induction rule: reachable.induct)
  case start
  then show ?case by (simp add: initial_state_def)
next
  case (typing s p v)
  then show ?case by (simp add: input_disabled_def)
next
  case (enter_key s p now s' r)
  from enter_key.hyps(2) enter_key.IH have "p = 0" "\<not> isLoading s"
    by (auto simp: input_disabled_def)
  with handleSendMessage_cases [OF enter_key.hyps(3)] show ?case by auto
next
  case (click s p now s' r)
  from click.hyps(2) click.IH have "p = 0" "\<not> isLoading s"
    by (auto simp: button_disabled_def)
  with handleSendMessage_cases [OF click.hyps(3)] show ?case by auto
next
  case (settle s p now out)
  then show ?case using settle_not_loading by auto
qed

text \<open>
  C1. In every state that the widget reaches through its own controls, a state with a
  request in flight (the loading flag set, or a request sent and not yet ended) has
  exactly one such request, an empty input and both controls disabled, and a call of
  \<open>handleSendMessage\<close> there is rejected: it appends no message, sends no request and
  leaves the state as it is. The handler rejects it by its test on the input, which
  sending has emptied and which cannot be typed into while the request is in flight.
\<close>

theorem submit_in_flight_is_noop:
  assumes "reachable s p" and "isLoading s \<or> 0 < p"
  shows "p = 1 \<and> isLoading s \<and> inputValue s = []
         \<and> input_disabled s \<and> button_disabled s
         \<and> handleSendMessage now s = (s, None)"
proof -
  from reachable_invariant [OF assms(1)] assms(2)
  have i: "p = 1" "isLoading s" "inputValue s = []" by auto
  then have "trim (inputValue s) = []" by (simp add: trim_def)
  with i show ?thesis
    by (simp add: handleSendMessage_blank input_disabled_def button_disabled_def)
qed

theorem submit_in_flight_is_noop_witness:
  "reachable waiting_state 1 \<and> isLoading waiting_state \<and> (0::nat) < 1
   \<and> messages waiting_state \<noteq> []
   \<and> handleSendMessage 2 waiting_state = (waiting_state, None)"
proof -
  have t: "reachable (initial_state\<lparr> inputValue := ''hi'' \<rparr>) 0"
    by (rule reachable.typing [OF reachable.start]) (simp add: input_disabled_def initial_state_def)
  have b: "\<not> button_disabled (initial_state\<lparr> inputValue := ''hi'' \<rparr>)"
    by (simp add: button_disabled_def initial_state_def trim_def is_space_def)
  have h: "handleSendMessage 1 (initial_state\<lparr> inputValue := ''hi'' \<rparr>)
      = (waiting_state, Some \<lparr> fr_messages = [], fr_question = ''hi'' \<rparr>)"
    by (simp add: handleSendMessage_def initial_state_def waiting_state_def trim_def
        is_space_def Let_def digit_def)
  from reachable.click [OF t b h] have r: "reachable waiting_state 1" by simp
  have l: "isLoading waiting_state" and m: "messages waiting_state \<noteq> []"
    by (simp_all add: waiting_state_def)
  have p: "(0::nat) < 1" by simp
  from l have "isLoading waiting_state \<or> (0::nat) < 1" ..
  from submit_in_flight_is_noop [OF r this, of 2] r l p m show ?thesis by blast
qed

section \<open>Aggregation\<close>

lemma loadProjectsData_unavailable:
  assumes "collections_file w = None \<or> (\<exists>e. collections_file w = Some (Unreadable e))
           \<or> (\<exists>t e. collections_file w = Some (Malformed t e))"
  shows "loadProjectsData w = []"
  using assms by (auto simp: loadProjectsData_def loadProjectsData_try_def)

lemma aggregate_throws_iff:
  "aggregateResearchDocuments w = Inl e \<longleftrightarrow> loadBlogPosts w = Inl e"
  by (simp add: aggregateResearchDocuments_def split: sum.splits)

lemma aggregate_throw_any_collections:
  "loadBlogPosts w = Inl e \<Longrightarrow> aggregateResearchDocuments (w\<lparr> collections_file := c \<rparr>) = Inl e"
  by (simp add: aggregateResearchDocuments_def loadBlogPosts_def)

text \<open>
  C6. With the collections file missing or unparseable, the aggregation is to return,
  without throwing, the documents of the other sources. \<open>loadProjectsData\<close> does its
  part: it returns the empty list (\<open>loadProjectsData_unavailable\<close>). But \<open>loadBlogPosts\<close>
  reads each file with no handler around it, unlike \<open>loadProjectsData\<close>, \<open>loadSiteInfo\<close>
  and the blog loop of \<open>loadResearchContent\<close>, and \<open>Promise.all\<close> rejects when it does. On
  a disk with no collections file and one blog entry that cannot be read, the
  aggregation throws, where \<open>loadResearchContent\<close> on the same disk returns its text.
\<close>

theorem aggregate_throws_on_unreadable_blog_file:
  \<open>collections_file unreadable_post = None
   \<and> loadProjectsData unreadable_post = []
   \<and> aggregateResearchDocuments unreadable_post
       = Inl (Error ''EISDIR: illegal operation on a directory, read'')
   \<and> loadResearchContent unreadable_post = ''BLOG POSTS:\<newline>'' @ divider @ ''\<newline>''\<close>
  by (simp add: unreadable_post_def no_files_def aggregateResearchDocuments_def
      loadBlogPosts_def endsWith_def loadProjectsData_def loadProjectsData_try_def
      loadResearchContent_def loadResearchContent_try_def blog_block_def mdx_files_def
      collections_block_def personal_block_def)

lemma loadBlogPosts_loop_ids:
  "loadBlogPosts_loop files docs = Inr ds
     \<Longrightarrow> map doc_id ds = map doc_id docs @ map (\<lambda>file. ''blog_'' @ file) (map fst (mdx_files files))"
proof (induction files docs rule: loadBlogPosts_loop.induct)
  case (1 documents)
  then show ?case by (simp add: mdx_files_def)
next
  case (2 f r files documents)
  show ?case
  proof (cases "endsWith ''.mdx'' f")
    case False
    with 2 show ?thesis by (simp add: mdx_files_def)
  next
    case True
    with "2.prems" obtain content where r: "r = Inr content"
      and l: "loadBlogPosts_loop files (documents @ [blog_document f content]) = Inr ds"
      by (cases r) auto
    from "2.IH"(2) [OF _ r l] True show ?thesis
      by (simp add: mdx_files_def blog_document_def Let_def)
  qed
qed

lemma loadBlogPosts_ids:
  "loadBlogPosts w = Inr blogs \<Longrightarrow> map doc_id blogs = map (\<lambda>file. ''blog_'' @ file) (blog_keys (keys_of w))"
  using loadBlogPosts_loop_ids [of _ "[]" blogs]
  by (auto simp: loadBlogPosts_def keys_of_def mdx_files_def split: option.splits sum.splits)

lemma loadProjectsData_ids:
  "map doc_id (loadProjectsData w) =
     map (\<lambda>name. ''project_'' @ name) (project_keys (keys_of w))
     @ map (\<lambda>name. ''publication_'' @ name) (publication_keys (keys_of w))"
  by (simp add: loadProjectsData_def loadProjectsData_try_def keys_of_def
      project_document_def publication_document_def comp_def
      split: option.splits json_file.splits)

lemma loadSiteInfo_ids:
  "map doc_id (loadSiteInfo w) = (if site_key (keys_of w) then [''site_info''] else [])"
  by (simp add: loadSiteInfo_def loadSiteInfo_try_def keys_of_def split: sum.splits)

lemma aggregate_ids:
  assumes "aggregateResearchDocuments w = Inr docs"
  shows "map doc_id docs = ids_of (keys_of w)"
proof -
  from assms obtain blogs where b: "loadBlogPosts w = Inr blogs"
    and d: "docs = blogs @ loadProjectsData w @ loadSiteInfo w"
    by (auto simp: aggregateResearchDocuments_def split: sum.splits)
  show ?thesis
    unfolding d ids_of_def map_append
    by (simp only: loadBlogPosts_ids [OF b] loadProjectsData_ids loadSiteInfo_ids append_assoc)
qed

text \<open>
  C9. The identifiers of the documents that \<open>aggregateResearchDocuments\<close> returns are, in
  order, \<open>blog_\<close> and the file name for each \<open>.mdx\<close> entry, \<open>project_\<close> and
  \<open>publication_\<close> and the record name for each record, and \<open>site_info\<close>: a function of
  the category and the key alone. The function reads no clock, no random source and no
  counter, so a second call on the same disk, and a call on any disk with the same keys
  (whatever the texts, dates and descriptions are), returns documents with the same
  identifiers, position for position.
\<close>

theorem identifiers_from_keys:
  assumes "aggregateResearchDocuments w = Inr docs"
  shows "map doc_id docs = ids_of (keys_of w)
         \<and> (\<forall>w' docs'. aggregateResearchDocuments w' = Inr docs' \<and> keys_of w' = keys_of w
               \<longrightarrow> map doc_id docs' = map doc_id docs)"
  using aggregate_ids [OF assms] aggregate_ids by metis

theorem identifiers_from_keys_witness:
  \<open>aggregateResearchDocuments first_post
     = Inr [blog_document ''my-first-post.mdx'' ''---\<newline>title: "Hello"\<newline>---\<newline>World'']
   \<and> aggregateResearchDocuments first_post_edited
     = Inr [blog_document ''my-first-post.mdx''
              ''---\<newline>title: "Hello again"\<newline>---\<newline>A longer text'']
   \<and> keys_of first_post_edited = keys_of first_post
   \<and> map doc_id [blog_document ''my-first-post.mdx''
                    ''---\<newline>title: "Hello again"\<newline>---\<newline>A longer text'']
     = map doc_id [blog_document ''my-first-post.mdx'' ''---\<newline>title: "Hello"\<newline>---\<newline>World'']
   \<and> map doc_id [blog_document ''my-first-post.mdx'' ''---\<newline>title: "Hello"\<newline>---\<newline>World'']
     = [''blog_my-first-post.mdx'']\<close>
proof -
  have a: \<open>aggregateResearchDocuments first_post
     = Inr [blog_document ''my-first-post.mdx'' ''---\<newline>title: "Hello"\<newline>---\<newline>World'']\<close>
    by (simp add: first_post_def no_files_def aggregateResearchDocuments_def loadBlogPosts_def
        endsWith_def loadProjectsData_def loadProjectsData_try_def loadSiteInfo_def
        loadSiteInfo_try_def)
  have b: \<open>aggregateResearchDocuments first_post_edited
     = Inr [blog_document ''my-first-post.mdx''
              ''---\<newline>title: "Hello again"\<newline>---\<newline>A longer text'']\<close>
    by (simp add: first_post_edited_def no_files_def aggregateResearchDocuments_def
        loadBlogPosts_def endsWith_def loadProjectsData_def loadProjectsData_try_def
        loadSiteInfo_def loadSiteInfo_try_def)
  have k: "keys_of first_post_edited = keys_of first_post"
    by (simp add: keys_of_def first_post_def first_post_edited_def no_files_def mdx_files_def)
  from identifiers_from_keys [OF a] have
    i: \<open>map doc_id [blog_document ''my-first-post.mdx'' ''---\<newline>title: "Hello"\<newline>---\<newline>World'']
        = ids_of (keys_of first_post)\<close>
    and s: \<open>\<forall>w' docs'. aggregateResearchDocuments w' = Inr docs' \<and> keys_of w' = keys_of first_post
        \<longrightarrow> map doc_id docs'
          = map doc_id [blog_document ''my-first-post.mdx'' ''---\<newline>title: "Hello"\<newline>---\<newline>World'']\<close>
    by blast+
  from s b k have e: \<open>map doc_id [blog_document ''my-first-post.mdx''
                    ''---\<newline>title: "Hello again"\<newline>---\<newline>A longer text'']
     = map doc_id [blog_document ''my-first-post.mdx'' ''---\<newline>title: "Hello"\<newline>---\<newline>World'']\<close>
    by blast
  have v: "ids_of (keys_of first_post) = [''blog_my-first-post.mdx'']"
    by (simp add: ids_of_def keys_of_def first_post_def no_files_def mdx_files_def endsWith_def)
  from a b k e i v show ?thesis by simp
qed

section \<open>The blog section of the context\<close>

lemma split_at_first_leftmost:
  "split_at_first pat s = Some (a, b) \<Longrightarrow> s = a2 @ pat @ b2 \<Longrightarrow> length a \<le> length a2"
proof (induction s arbitrary: a b a2)
  case Nil
  then show ?case by (simp split: if_splits)
next
  case (Cons c s)
  show ?case
  proof (cases "starts_with pat (c # s)")
    case True
    with Cons.prems(1) show ?thesis by simp
  next
    case False
    with Cons.prems(1) obtain a' where s: "split_at_first pat s = Some (a', b)" and a: "a = c # a'"
      by (auto split: option.splits)
    have "a2 \<noteq> []"
    proof
      assume "a2 = []"
      with Cons.prems(2) have "c # s = pat @ b2" by simp
      with starts_with_append [of pat b2] False show False by simp
    qed
    then obtain x a2' where a2: "a2 = x # a2'" by (cases a2) auto
    with Cons.prems(2) have "s = a2' @ pat @ b2" by simp
    from Cons.IH [OF s this] a a2 show ?thesis by simp
  qed
qed

lemma split_at_first_iff:
  "split_at_first pat s = Some (a, b) \<longleftrightarrow> first_occurrence pat s a b"
proof
  assume "split_at_first pat s = Some (a, b)"
  then show "first_occurrence pat s a b"
    unfolding first_occurrence_def
    using split_at_first_sound split_at_first_leftmost by blast
next
  assume f: "first_occurrence pat s a b"
  then have s: "s = a @ pat @ b" and m: "\<And>a' b'. s = a' @ pat @ b' \<Longrightarrow> length a \<le> length a'"
    unfolding first_occurrence_def by blast+
  from split_at_first_complete [of pat a b] s obtain a' b'
    where r: "split_at_first pat s = Some (a', b')" by auto
  note s' = split_at_first_sound [OF r]
  from m [OF s'] split_at_first_leftmost [OF r s] have "length a' = length a" by simp
  with s s' have "a' = a" "b' = b" by auto
  with r show "split_at_first pat s = Some (a, b)" by simp
qed

lemma blog_body_rule: "body_rule c (blog_body c)"
proof (cases "frontmatter_match c")
  case None
  have \<open>c \<noteq> ''---\<newline>'' @ fm @ ''\<newline>---\<newline>'' @ b'\<close> for fm b'
  proof
    assume c: \<open>c = ''---\<newline>'' @ fm @ ''\<newline>---\<newline>'' @ b'\<close>
    then have \<open>starts_with ''---\<newline>'' c\<close> by (simp add: starts_with_def)
    moreover from c have \<open>drop 4 c = fm @ ''\<newline>---\<newline>'' @ b'\<close> by simp
    ultimately show False
      using None split_at_first_complete [of \<open>''\<newline>---\<newline>''\<close> fm b']
      by (simp add: frontmatter_match_def)
  qed
  with None show ?thesis by (simp add: body_rule_def blog_body_def)
next
  case (Some p)
  obtain fm b where p: "p = (fm, b)" by (cases p)
  from Some p have s: \<open>starts_with ''---\<newline>'' c\<close>
    and m: \<open>split_at_first ''\<newline>---\<newline>'' (drop 4 c) = Some (fm, b)\<close>
    by (auto simp: frontmatter_match_def split: if_splits)
  from starts_with_split [OF s] have \<open>c = ''---\<newline>'' @ drop 4 c\<close>
    by (simp add: eval_nat_numeral)
  moreover from m have \<open>first_occurrence ''\<newline>---\<newline>'' (drop 4 c) fm b\<close>
    by (simp only: split_at_first_iff)
  ultimately have \<open>\<exists>fm rest. c = ''---\<newline>'' @ rest \<and> first_occurrence ''\<newline>---\<newline>'' rest fm b\<close>
    by blast
  with Some p show ?thesis by (simp add: body_rule_def blog_body_def)
qed

lemma body_rule_unique: "body_rule c b \<Longrightarrow> b = blog_body c"
proof -
  assume "body_rule c b"
  then consider (fm) fm rest where \<open>c = ''---\<newline>'' @ rest\<close>
      \<open>first_occurrence ''\<newline>---\<newline>'' rest fm b\<close>
    | (plain) \<open>\<forall>fm b'. c \<noteq> ''---\<newline>'' @ fm @ ''\<newline>---\<newline>'' @ b'\<close> "b = c"
    unfolding body_rule_def by blast
  then show ?thesis
  proof cases
    case fm
    from fm(2) have \<open>split_at_first ''\<newline>---\<newline>'' rest = Some (fm, b)\<close>
      by (simp only: split_at_first_iff)
    with fm(1) have "frontmatter_match c = Some (fm, b)"
      by (simp add: frontmatter_match_def starts_with_def)
    then show ?thesis by (simp add: blog_body_def)
  next
    case plain
    have "frontmatter_match c = None"
    proof (cases "frontmatter_match c")
      case None
      then show ?thesis .
    next
      case (Some p)
      obtain fm b' where "p = (fm, b')" by (cases p)
      with Some frontmatter_match_sound [of c fm b'] plain(1) show ?thesis by blast
    qed
    with plain(2) show ?thesis by (simp add: blog_body_def)
  qed
qed

lemma title_match_None_iff:
  "title_match c = None \<longleftrightarrow> (\<forall>n t. \<not> quoted_title (drop n c) t)"
proof
  assume "title_match c = None"
  then show "\<forall>n t. \<not> quoted_title (drop n c) t"
    using title_match_None [of c] title_at_iff by (metis option.distinct(1))
next
  assume a: "\<forall>n t. \<not> quoted_title (drop n c) t"
  show "title_match c = None"
  proof (cases "title_match c")
    case None
    then show ?thesis .
  next
    case (Some t)
    from title_match_Some [OF Some] obtain pre rest where "c = pre @ rest" "title_at rest = Some t"
      by blast
    then have "quoted_title (drop (length pre) c) t" by (simp add: title_at_iff)
    with a show ?thesis by blast
  qed
qed

lemma title_match_leftmost:
  assumes "c = pre @ rest" and "quoted_title rest t"
    and "\<forall>n < length pre. \<forall>t'. \<not> quoted_title (drop n c) t'"
  shows "title_match c = Some t"
proof -
  from assms(1,2) have q: "quoted_title (drop (length pre) c) t" by simp
  then have "title_match c \<noteq> None" by (auto simp: title_match_None_iff)
  then obtain t2 where m: "title_match c = Some t2" by auto
  from title_match_Some [OF m] obtain pre2 rest2 where c2: "c = pre2 @ rest2"
    and t2: "title_at rest2 = Some t2"
    and n2: "\<forall>n < length pre2. title_at (drop n c) = None" by blast
  have "\<not> length pre < length pre2"
  proof
    assume "length pre < length pre2"
    with n2 have "title_at (drop (length pre) c) = None" by blast
    with q title_at_iff show False by (metis option.distinct(1))
  qed
  moreover have "\<not> length pre2 < length pre"
  proof
    assume "length pre2 < length pre"
    with assms(3) have "\<not> quoted_title (drop (length pre2) c) t2" by blast
    with c2 t2 show False by (simp add: title_at_iff)
  qed
  ultimately have "length pre = length pre2" by simp
  with assms(1) c2 have "rest = rest2" by auto
  with t2 assms(2) have "t2 = t" by (metis title_at_iff option.inject)
  with m show ?thesis by simp
qed

lemma blog_title_rule: "title_rule f c (blog_title f c)"
proof (cases "title_match c")
  case None
  then have "\<forall>n t. \<not> quoted_title (drop n c) t" using title_match_None_iff by blast
  with None show ?thesis by (simp add: title_rule_def blog_title_def)
next
  case (Some t)
  from title_match_Some [OF Some] obtain pre rest where c: "c = pre @ rest"
    and t: "title_at rest = Some t"
    and n: "\<forall>n < length pre. title_at (drop n c) = None" by blast
  from n have "\<forall>n < length pre. \<forall>t'. \<not> quoted_title (drop n c) t'"
    using title_at_iff by (metis option.distinct(1))
  with c t have "\<exists>pre rest. c = pre @ rest \<and> quoted_title rest t
        \<and> (\<forall>n < length pre. \<forall>t'. \<not> quoted_title (drop n c) t')"
    using title_at_iff by blast
  with Some show ?thesis by (simp add: title_rule_def blog_title_def)
qed

lemma title_rule_unique: "title_rule f c t \<Longrightarrow> t = blog_title f c"
proof -
  assume "title_rule f c t"
  then consider (found) pre rest where "c = pre @ rest" "quoted_title rest t"
      "\<forall>n < length pre. \<forall>t'. \<not> quoted_title (drop n c) t'"
    | (none) "\<forall>n t'. \<not> quoted_title (drop n c) t'" "t = strip_mdx f"
    unfolding title_rule_def by blast
  then show ?thesis
  proof cases
    case found
    from title_match_leftmost [OF found] show ?thesis by (simp add: blog_title_def)
  next
    case none
    from none(1) have "title_match c = None" using title_match_None_iff by blast
    with none(2) show ?thesis by (simp add: blog_title_def)
  qed
qed

lemma blog_loop_concat:
  "blog_loop files content =
     content @ concat (map (\<lambda>(f, c). blog_entry f c) (readable_files files))"
proof (induction files content rule: blog_loop.induct)
  case (1 content)
  then show ?case by simp
next
  case (2 f r files content)
  then show ?case by (cases r) simp_all
qed

lemma lines_of_append_line:
  "CHR 0x0A \<notin> set l \<Longrightarrow> lines_of (l @ CHR 0x0A # s) = l # lines_of s"
  by (induction l) auto

lemma length_readable_files: "length (readable_files files) \<le> length files"
proof (induction files)
  case Nil
  then show ?case by simp
next
  case (Cons x files)
  obtain f r where "x = (f, r)" by (cases x)
  with Cons show ?case by (cases r) simp_all
qed

text \<open>
  C8, as stated, fails: the title is searched in the whole text of the file, not in the
  front matter. A file without any front matter whose text has the words
  \<open>title: "Draft"\<close> gets the title \<open>Draft\<close>, not the name of the file.
\<close>

theorem title_outside_front_matter_counterexample:
  \<open>blog_dir title_in_body = Some (Inr [(''a.mdx'', Inr ''The field title: "Draft" is optional.'')])
   \<and> frontmatter_match ''The field title: "Draft" is optional.'' = None
   \<and> loadResearchContent title_in_body =
       ''BLOG POSTS:\<newline>'' @ divider
       @ ''\<newline>\<newline>[BLOG] Draft\<newline>The field title: "Draft" is optional.\<newline>...\<newline>''\<close>
  by (simp add: title_in_body_def no_files_def loadResearchContent_def
      loadResearchContent_try_def blog_block_def collections_block_def personal_block_def
      mdx_files_def endsWith_def blog_entry_def blog_title_def blog_body_def
      frontmatter_match_def starts_with_def title_at_def is_space_def is_quote_def divider_def
      Let_def)

text \<open>
  C8, amended. The blog section is made from the first ten \<open>.mdx\<close> entries of the
  listing at most. Each of them that can be read contributes the line \<open>[BLOG]\<close> with a
  title, then the first 800 characters of the body, then a line of three dots. The title
  is the text between quotes after the leftmost \<open>title:\<close> with a quoted value anywhere in
  the text of the file, front matter or not, and the file name without \<open>.mdx\<close> when there
  is none; the body is what follows the front matter when the file begins with one, and
  the whole text otherwise. For the file \<open>my-first-post.mdx\<close> with the title \<open>Hello\<close> in
  its front matter and the body \<open>World\<close>, the section has the line \<open>[BLOG] Hello\<close>
  followed by the line \<open>World\<close>.
\<close>

theorem blog_section_entries:
  assumes "blog_dir w = Some (Inr entries)"
  shows \<open>blog_block w content =
           Inr (content @ ''BLOG POSTS:\<newline>'' @ divider @ ''\<newline>''
                @ concat (map (\<lambda>(f, c). blog_entry f c)
                            (readable_files (take 10 (mdx_files entries)))))
         \<and> length (readable_files (take 10 (mdx_files entries))) \<le> 10
         \<and> (\<forall>f c. \<exists>title body.
               blog_entry f c = ''\<newline>[BLOG] '' @ title @ ''\<newline>'' @ take 800 body @ ''\<newline>...\<newline>''
               \<and> length (take 800 body) \<le> 800
               \<and> (\<forall>t. title_rule f c t \<longleftrightarrow> t = title)
               \<and> (\<forall>b. body_rule c b \<longleftrightarrow> b = body))
         \<and> lines_of (loadResearchContent first_post) =
             [''BLOG POSTS:'', divider, [], ''[BLOG] Hello'', ''World'', ''...'', []]\<close>
proof -
  have a: \<open>blog_block w content =
           Inr (content @ ''BLOG POSTS:\<newline>'' @ divider @ ''\<newline>''
                @ concat (map (\<lambda>(f, c). blog_entry f c)
                            (readable_files (take 10 (mdx_files entries)))))\<close>
    using assms by (simp add: blog_block_def blog_loop_concat)
  have "length (readable_files (take 10 (mdx_files entries)))
      \<le> length (take 10 (mdx_files entries))"
    by (rule length_readable_files)
  then have b: "length (readable_files (take 10 (mdx_files entries))) \<le> 10" by simp
  have c: \<open>\<exists>title body.
               blog_entry f c = ''\<newline>[BLOG] '' @ title @ ''\<newline>'' @ take 800 body @ ''\<newline>...\<newline>''
               \<and> length (take 800 body) \<le> 800
               \<and> (\<forall>t. title_rule f c t \<longleftrightarrow> t = title)
               \<and> (\<forall>b. body_rule c b \<longleftrightarrow> b = body)\<close> for f c
  proof -
    have "\<forall>t. title_rule f c t \<longleftrightarrow> t = blog_title f c"
      using blog_title_rule title_rule_unique by blast
    moreover have "\<forall>b. body_rule c b \<longleftrightarrow> b = blog_body c"
      using blog_body_rule body_rule_unique by blast
    moreover have \<open>blog_entry f c = ''\<newline>[BLOG] '' @ blog_title f c @ ''\<newline>''
        @ take 800 (blog_body c) @ ''\<newline>...\<newline>''\<close>
      by (simp add: blog_entry_def)
    moreover have "length (take 800 (blog_body c)) \<le> 800" by simp
    ultimately show ?thesis by blast
  qed
  have r: \<open>loadResearchContent first_post =
      ''BLOG POSTS:'' @ CHR 0x0A # divider @ CHR 0x0A # ''\<newline>[BLOG] Hello\<newline>World\<newline>...\<newline>''\<close>
    by (simp add: first_post_def no_files_def loadResearchContent_def
        loadResearchContent_try_def blog_block_def collections_block_def personal_block_def
        mdx_files_def endsWith_def blog_entry_def blog_title_def blog_body_def
        frontmatter_match_def starts_with_def title_at_def is_space_def is_quote_def Let_def)
  have n1: "CHR 0x0A \<notin> set ''BLOG POSTS:''" by simp
  have n2: "CHR 0x0A \<notin> set divider" by (simp add: divider_def)
  have l: \<open>lines_of ''\<newline>[BLOG] Hello\<newline>World\<newline>...\<newline>''
      = [[], ''[BLOG] Hello'', ''World'', ''...'', []]\<close> by simp
  have d: \<open>lines_of (loadResearchContent first_post) =
             [''BLOG POSTS:'', divider, [], ''[BLOG] Hello'', ''World'', ''...'', []]\<close>
    unfolding r by (simp only: lines_of_append_line [OF n1] lines_of_append_line [OF n2] l)
  from a b c d show ?thesis by blast
qed

theorem blog_section_entries_witness:
  \<open>blog_dir first_post =
     Some (Inr [(''my-first-post.mdx'', Inr ''---\<newline>title: "Hello"\<newline>---\<newline>World'')])
   \<and> blog_block first_post [] =
       Inr (''BLOG POSTS:\<newline>'' @ divider @ ''\<newline>\<newline>[BLOG] Hello\<newline>World\<newline>...\<newline>'')\<close>
proof -
  have a: \<open>blog_dir first_post =
     Some (Inr [(''my-first-post.mdx'', Inr ''---\<newline>title: "Hello"\<newline>---\<newline>World'')])\<close>
    by (simp add: first_post_def)
  have e: \<open>blog_entry ''my-first-post.mdx'' ''---\<newline>title: "Hello"\<newline>---\<newline>World''
      = ''\<newline>[BLOG] Hello\<newline>World\<newline>...\<newline>''\<close>
    by (simp add: blog_entry_def blog_title_def blog_body_def frontmatter_match_def
        starts_with_def title_at_def is_space_def is_quote_def Let_def)
  from blog_section_entries [OF a, of "[]"]
  have \<open>blog_block first_post [] =
           Inr ([] @ ''BLOG POSTS:\<newline>'' @ divider @ ''\<newline>''
                @ concat (map (\<lambda>(f, c). blog_entry f c)
                    (readable_files (take 10 (mdx_files
                       [(''my-first-post.mdx'', Inr ''---\<newline>title: "Hello"\<newline>---\<newline>World'')])))))\<close>
    by blast
  with e have \<open>blog_block first_post [] =
       Inr (''BLOG POSTS:\<newline>'' @ divider @ ''\<newline>\<newline>[BLOG] Hello\<newline>World\<newline>...\<newline>'')\<close>
    by (simp add: mdx_files_def endsWith_def)
  with a show ?thesis by blast
qed

section \<open>One unreadable blog file does not stop the context\<close>

lemma collections_block_append:
  "collections_block w content =
     (case collections_block w [] of
        Inl (c, e) \<Rightarrow> Inl (content @ c, e)
      | Inr c \<Rightarrow> Inr (content @ c))"
  by (simp add: collections_block_def projects_section_def publications_section_def
      split: option.splits json_file.splits)

lemma personal_block_append:
  "personal_block w content =
     (case personal_block w [] of
        Inl (c, e) \<Rightarrow> Inl (content @ c, e)
      | Inr c \<Rightarrow> Inr (content @ c))"
  by (simp add: personal_block_def split: option.splits json_file.splits)

lemma try_after_blog:
  assumes "blog_block w [] = Inr blogs"
  shows "fst (loadResearchContent_try w)
         = blogs @ fst (loadResearchContent_try (w\<lparr> blog_dir := None \<rparr>))"
proof -
  have c0: "collections_block (w\<lparr> blog_dir := None \<rparr>) = collections_block w"
    by (rule ext) (simp add: collections_block_def)
  have p0: "personal_block (w\<lparr> blog_dir := None \<rparr>) = personal_block w"
    by (rule ext) (simp add: personal_block_def)
  have b0: "blog_block (w\<lparr> blog_dir := None \<rparr>) [] = Inr []"
    by (simp add: blog_block_def)
  show ?thesis
  proof (cases "collections_block w []")
    case (Inl ce)
    obtain c e where "ce = (c, e)" by (cases ce)
    with Inl assms b0 c0 collections_block_append [of w blogs] show ?thesis
      by (simp add: loadResearchContent_try_def)
  next
    case (Inr c2)
    then have cb: "collections_block w blogs = Inr (blogs @ c2)"
      using collections_block_append [of w blogs] by simp
    show ?thesis
    proof (cases "personal_block w []")
      case (Inl ce)
      obtain c e where ce: "ce = (c, e)" by (cases ce)
      with Inl have "personal_block w (blogs @ c2) = Inl ((blogs @ c2) @ c, e)"
        and "personal_block w c2 = Inl (c2 @ c, e)"
        using personal_block_append [of w "blogs @ c2"] personal_block_append [of w c2]
        by simp_all
      with Inr cb assms b0 c0 p0 show ?thesis by (simp add: loadResearchContent_try_def)
    next
      case (Inr c3)
      then have "personal_block w (blogs @ c2) = Inr ((blogs @ c2) @ c3)"
        and "personal_block w c2 = Inr (c2 @ c3)"
        using personal_block_append [of w "blogs @ c2"] personal_block_append [of w c2]
        by simp_all
      with \<open>collections_block w [] = Inr c2\<close> cb assms b0 c0 p0 show ?thesis
        by (simp add: loadResearchContent_try_def)
    qed
  qed
qed

lemma later_sections:
  \<open>fst (loadResearchContent_try (w\<lparr> blog_dir := None \<rparr>)) =
     (let personal =
            (case personal_file w of
               Some (Parsed ptext rendering) \<Rightarrow>
                 ''\<newline>\<newline>PERSONAL INFORMATION:\<newline>'' @ divider @ ''\<newline>'' @ take 1000 rendering
             | _ \<Rightarrow> [])
      in case collections_file w of
           None \<Rightarrow> personal
         | Some (Unreadable e) \<Rightarrow> []
         | Some (Malformed text e) \<Rightarrow> []
         | Some (Parsed text collectionsData) \<Rightarrow>
             (case projects_items collectionsData of
                None \<Rightarrow> []
              | Some items \<Rightarrow>
                  ''\<newline>\<newline>PROJECTS:\<newline>'' @ divider @ ''\<newline>''
                  @ concat (map (\<lambda>proj.
                       ''\<newline>[PROJECT] '' @ p_name proj @ '' ('' @ p_dates proj @ '')\<newline>''
                       @ ''Description: '' @ p_description proj @ ''\<newline>''
                       @ (case p_technologies proj of
                            None \<Rightarrow> []
                          | Some ts \<Rightarrow> ''Technologies: '' @ join '', '' ts @ ''\<newline>''))
                     (take 10 items)))
             @ (case publications_items collectionsData of
                  None \<Rightarrow> []
                | Some items \<Rightarrow>
                    ''\<newline>\<newline>PUBLICATIONS:\<newline>'' @ divider @ ''\<newline>''
                    @ concat (map (\<lambda>pub.
                         ''\<newline>[PUBLICATION] '' @ pub_name pub @ ''\<newline>''
                         @ ''Authors: ''
                         @ (case pub_authors pub of
                              None \<Rightarrow> ''N/A''
                            | Some a \<Rightarrow> (if a = [] then ''N/A'' else a))
                         @ ''\<newline>''
                         @ ''Date: '' @ pub_dates pub @ ''\<newline>''
                         @ ''Description: '' @ pub_description pub @ ''\<newline>'')
                       (take 10 items)))
             @ personal)\<close>
proof -
  have pe: \<open>project_entry = (\<lambda>proj.
       ''\<newline>[PROJECT] '' @ p_name proj @ '' ('' @ p_dates proj @ '')\<newline>''
       @ ''Description: '' @ p_description proj @ ''\<newline>''
       @ (case p_technologies proj of
            None \<Rightarrow> []
          | Some ts \<Rightarrow> ''Technologies: '' @ join '', '' ts @ ''\<newline>''))\<close>
    by (rule ext) (simp add: project_entry_def)
  have pu: \<open>publication_entry = (\<lambda>pub.
       ''\<newline>[PUBLICATION] '' @ pub_name pub @ ''\<newline>''
       @ ''Authors: ''
       @ (case pub_authors pub of
            None \<Rightarrow> ''N/A''
          | Some a \<Rightarrow> (if a = [] then ''N/A'' else a))
       @ ''\<newline>''
       @ ''Date: '' @ pub_dates pub @ ''\<newline>''
       @ ''Description: '' @ pub_description pub @ ''\<newline>'')\<close>
    by (rule ext) (simp add: publication_entry_def authors_text_def)
  note defs = loadResearchContent_try_def blog_block_def collections_block_def
    personal_block_def projects_section_def publications_section_def pe pu Let_def
  show ?thesis
  proof (cases "collections_file w")
    case None
    then show ?thesis
      by (cases "personal_file w") (auto simp: defs split: json_file.splits)
  next
    case (Some cf)
    show ?thesis
    proof (cases cf)
      case (Unreadable e)
      with Some show ?thesis by (simp add: defs)
    next
      case (Malformed t e)
      with Some show ?thesis by (simp add: defs)
    next
      case (Parsed t d)
      with Some show ?thesis
        by (cases "personal_file w") (auto simp: defs split: json_file.splits option.splits)
    qed
  qed
qed

text \<open>
  C10. With a blog directory that can be listed, \<open>loadResearchContent\<close> returns a text
  (it has no way to throw), and the text is: the heading of the blog section; the entry
  of each of the first ten \<open>.mdx\<close> files that can be read, in order, a file whose read
  throws adding nothing; and then the later sections as they are without any failure:
  with a collections file that parses, the projects under their heading and the
  publications under theirs, each when the file has them, and after them the personal
  information under its heading when the personal file parses. A collections or
  personal file that cannot be read or parsed ends the text there; an absent one is
  passed over.
\<close>

theorem unreadable_blog_file_skipped:
  assumes "blog_dir w = Some (Inr entries)"
  shows \<open>loadResearchContent w =
     ''BLOG POSTS:\<newline>'' @ divider @ ''\<newline>''
     @ concat (map (\<lambda>(f, c). ''\<newline>[BLOG] '' @ blog_title f c @ ''\<newline>''
                                @ take 800 (blog_body c) @ ''\<newline>...\<newline>'')
                 (readable_files (take 10 (mdx_files entries))))
     @ (let personal =
              (case personal_file w of
                 Some (Parsed ptext rendering) \<Rightarrow>
                   ''\<newline>\<newline>PERSONAL INFORMATION:\<newline>'' @ divider @ ''\<newline>'' @ take 1000 rendering
               | _ \<Rightarrow> [])
        in case collections_file w of
             None \<Rightarrow> personal
           | Some (Unreadable e) \<Rightarrow> []
           | Some (Malformed text e) \<Rightarrow> []
           | Some (Parsed text collectionsData) \<Rightarrow>
               (case projects_items collectionsData of
                  None \<Rightarrow> []
                | Some items \<Rightarrow>
                    ''\<newline>\<newline>PROJECTS:\<newline>'' @ divider @ ''\<newline>''
                    @ concat (map (\<lambda>proj.
                         ''\<newline>[PROJECT] '' @ p_name proj @ '' ('' @ p_dates proj @ '')\<newline>''
                         @ ''Description: '' @ p_description proj @ ''\<newline>''
                         @ (case p_technologies proj of
                              None \<Rightarrow> []
                            | Some ts \<Rightarrow> ''Technologies: '' @ join '', '' ts @ ''\<newline>''))
                       (take 10 items)))
               @ (case publications_items collectionsData of
                    None \<Rightarrow> []
                  | Some items \<Rightarrow>
                      ''\<newline>\<newline>PUBLICATIONS:\<newline>'' @ divider @ ''\<newline>''
                      @ concat (map (\<lambda>pub.
                           ''\<newline>[PUBLICATION] '' @ pub_name pub @ ''\<newline>''
                           @ ''Authors: ''
                           @ (case pub_authors pub of
                                None \<Rightarrow> ''N/A''
                              | Some a \<Rightarrow> (if a = [] then ''N/A'' else a))
                           @ ''\<newline>''
                           @ ''Date: '' @ pub_dates pub @ ''\<newline>''
                           @ ''Description: '' @ pub_description pub @ ''\<newline>'')
                         (take 10 items)))
               @ personal)\<close>
proof -
  have be: \<open>(\<lambda>(f, c). blog_entry f c) =
      (\<lambda>(f, c). ''\<newline>[BLOG] '' @ blog_title f c @ ''\<newline>''
                  @ take 800 (blog_body c) @ ''\<newline>...\<newline>'')\<close>
    by (rule ext) (simp add: blog_entry_def split: prod.splits)
  have b: \<open>blog_block w [] =
      Inr (''BLOG POSTS:\<newline>'' @ divider @ ''\<newline>''
           @ concat (map (\<lambda>(f, c). blog_entry f c)
                       (readable_files (take 10 (mdx_files entries)))))\<close>
    using assms by (simp add: blog_block_def blog_loop_concat)
  from try_after_blog [OF b]
  have \<open>loadResearchContent w =
      ''BLOG POSTS:\<newline>'' @ divider @ ''\<newline>''
      @ concat (map (\<lambda>(f, c). blog_entry f c)
                  (readable_files (take 10 (mdx_files entries))))
      @ fst (loadResearchContent_try (w\<lparr> blog_dir := None \<rparr>))\<close>
    by (simp add: loadResearchContent_def)
  then show ?thesis by (simp only: be later_sections)
qed

theorem unreadable_blog_file_skipped_witness:
  \<open>blog_dir mixed_blog =
     Some (Inr [(''a.mdx'', Inl (Error ''EACCES: permission denied'')), (''b.mdx'', Inr ''Body'')])
   \<and> loadResearchContent mixed_blog =
       ''BLOG POSTS:\<newline>'' @ divider
       @ ''\<newline>\<newline>[BLOG] b\<newline>Body\<newline>...\<newline>''
       @ ''\<newline>\<newline>PROJECTS:\<newline>'' @ divider
       @ ''\<newline>\<newline>[PROJECT] X (2020)\<newline>Description: D\<newline>Technologies: Go\<newline>''
       @ ''\<newline>\<newline>PUBLICATIONS:\<newline>'' @ divider
       @ ''\<newline>\<newline>[PUBLICATION] P\<newline>Authors: N/A\<newline>Date: 2021\<newline>Description: E\<newline>''
       @ ''\<newline>\<newline>PERSONAL INFORMATION:\<newline>'' @ divider @ ''\<newline>{}''\<close>
proof -
  have a: \<open>blog_dir mixed_blog =
     Some (Inr [(''a.mdx'', Inl (Error ''EACCES: permission denied'')), (''b.mdx'', Inr ''Body'')])\<close>
    by (simp add: mixed_blog_def)
  have f: \<open>readable_files (take 10 (mdx_files
        [(''a.mdx'', Inl (Error ''EACCES: permission denied'')), (''b.mdx'', Inr ''Body'')]))
      = [(''b.mdx'', ''Body'')]\<close>
    by (simp add: mdx_files_def endsWith_def)
  have t: \<open>blog_title ''b.mdx'' ''Body'' = ''b''\<close> and b: \<open>blog_body ''Body'' = ''Body''\<close>
    by (simp_all add: blog_title_def blog_body_def frontmatter_match_def
        starts_with_def title_at_def strip_mdx_def endsWith_def)
  have c: \<open>collections_file mixed_blog =
      Some (Parsed ''{}'' \<lparr> projects_items = Some [project_X],
                              publications_items = Some [paper_P] \<rparr>)\<close>
    and p: \<open>personal_file mixed_blog = Some (Parsed ''{}'' ''{}'')\<close>
    by (simp_all add: mixed_blog_def)
  note r = unreadable_blog_file_skipped [OF a, unfolded f c p]
  have \<open>loadResearchContent mixed_blog =
       ''BLOG POSTS:\<newline>'' @ divider
       @ ''\<newline>\<newline>[BLOG] b\<newline>Body\<newline>...\<newline>''
       @ ''\<newline>\<newline>PROJECTS:\<newline>'' @ divider
       @ ''\<newline>\<newline>[PROJECT] X (2020)\<newline>Description: D\<newline>Technologies: Go\<newline>''
       @ ''\<newline>\<newline>PUBLICATIONS:\<newline>'' @ divider
       @ ''\<newline>\<newline>[PUBLICATION] P\<newline>Authors: N/A\<newline>Date: 2021\<newline>Description: E\<newline>''
       @ ''\<newline>\<newline>PERSONAL INFORMATION:\<newline>'' @ divider @ ''\<newline>{}''\<close>
    unfolding r by (simp add: t b project_X_def paper_P_def)
  with a show ?thesis by (intro conjI)
qed

end
